theory Spec2Isabelle
  imports Main "HOL-Library.AList" "HOL-Library.Multiset"
begin

section \<open>Data model\<close>

text \<open>
  The Go structs of the more complete program (the one with indexes and constraints) as
  records. A Go \<open>map[string]V\<close> is an association list \<open>(string \<times> V) list\<close>:
  \<open>map_of\<close> is the lookup \<open>m[k]\<close>, \<open>AList.update\<close> is the store \<open>m[k] = v\<close>, and
  the order of the list is the order in which a \<open>range\<close> loop visits the entries. Go leaves
  that order unspecified, so a statement about every association list with distinct keys is
  a statement about every order the runtime may choose. A \<open>nil\<close> map and an empty map are
  both \<open>[]\<close>: they differ only under a store, and the parser stores into a table's maps
  only after \<open>make\<close> has allocated them (the stores are guarded by \<open>analyzingTable\<close>).
\<close>

record Column =
  Name :: string
  Type :: string
  Other :: string

record Index =
  Name :: string
  ColumnName :: string

record Constraint =
  Name :: string
  ColumnName :: string
  Type :: string
  Other :: string

record Table =
  Name :: string
  Columns :: "(string \<times> Column) list"
  Indexes :: "(string \<times> Index) list"
  Constraints :: "(string \<times> (string \<times> Constraint) list) list"

definition MissingTable :: string where
  "MissingTable = ''MISSING_TABLE''"

definition MissingColumn :: string where
  "MissingColumn = ''MISSING_COLUMN''"

definition WrongColumnType :: string where
  "WrongColumnType = ''WRONG_COLUMN_TYPE''"

definition WrongColumnOther :: string where
  "WrongColumnOther = ''WRONG_COLUMN_OTHER''"

definition MissingIndex :: string where
  "MissingIndex = ''MISSING_INDEX''"

definition MissingConstraint :: string where
  "MissingConstraint = ''MISSING_CONSTRAINT''"

definition WrongConstraintOther :: string where
  "WrongConstraintOther = ''WRONG_CONSTRAINT_OTHER''"

record Diff =
  Type :: string
  Target :: string
  A :: string
  B :: string

section \<open>The string functions of Go's \<open>strings\<close> and \<open>fmt\<close> that the program calls\<close>

text \<open>
  \<open>strings.Split(s, sep)\<close> for a separator of one byte (the program passes a newline and
  a space): the pieces between the separators, empty pieces kept, so the result has one
  more element than \<open>s\<close> has separators and is never empty.
\<close>

fun Split :: "string \<Rightarrow> char \<Rightarrow> string list" where
  "Split [] sep = [[]]"
| "Split (c # cs) sep =
     (if c = sep then [] # Split cs sep
      else (case Split cs sep of
              [] \<Rightarrow> [[c]]
            | w # ws \<Rightarrow> (c # w) # ws))"

text \<open>\<open>strings.Trim(s, cutset)\<close>: every leading and trailing byte of the cutset removed.\<close>

definition Trim :: "string \<Rightarrow> string \<Rightarrow> string" where
  "Trim s cutset =
     rev (dropWhile (\<lambda>c. c \<in> set cutset) (rev (dropWhile (\<lambda>c. c \<in> set cutset) s)))"

text \<open>\<open>strings.Join(elems, sep)\<close>.\<close>

fun Join :: "string list \<Rightarrow> string \<Rightarrow> string" where
  "Join [] sep = []"
| "Join [x] sep = x"
| "Join (x # y # zs) sep = x @ sep @ Join (y # zs) sep"

text \<open>\<open>fmt.Sprintf("%s.%s", a, b)\<close> and \<open>fmt.Sprintf("%s.%s.%s", a, b, c)\<close>.\<close>

definition Sprintf2 :: "string \<Rightarrow> string \<Rightarrow> string" where
  "Sprintf2 a b = a @ ''.'' @ b"

definition Sprintf3 :: "string \<Rightarrow> string \<Rightarrow> string \<Rightarrow> string" where
  "Sprintf3 a b c = a @ ''.'' @ b @ ''.'' @ c"

section \<open>groupByType\<close>

text \<open>
  The seven slices that the loop of \<open>groupByType\<close> appends to, and one turn of the loop:
  the \<open>switch\<close> on \<open>d.Type\<close>, which has no default case, so a record of any other type is
  appended nowhere.
\<close>

record Buckets =
  missingTable :: "Diff list"
  missingColumn :: "Diff list"
  wrongColumnType :: "Diff list"
  wrongColumnOther :: "Diff list"
  missingIndex :: "Diff list"
  missingConstraint :: "Diff list"
  wrongConstraintOther :: "Diff list"

definition emptyBuckets :: Buckets where
  "emptyBuckets = \<lparr>missingTable = [], missingColumn = [], wrongColumnType = [],
     wrongColumnOther = [], missingIndex = [], missingConstraint = [],
     wrongConstraintOther = []\<rparr>"

definition groupStep :: "Buckets \<Rightarrow> Diff \<Rightarrow> Buckets" where
  "groupStep bs d =
     (if Diff.Type d = MissingTable then bs\<lparr>missingTable := missingTable bs @ [d]\<rparr>
      else if Diff.Type d = MissingColumn then bs\<lparr>missingColumn := missingColumn bs @ [d]\<rparr>
      else if Diff.Type d = WrongColumnType then bs\<lparr>wrongColumnType := wrongColumnType bs @ [d]\<rparr>
      else if Diff.Type d = WrongColumnOther then bs\<lparr>wrongColumnOther := wrongColumnOther bs @ [d]\<rparr>
      else if Diff.Type d = MissingIndex then bs\<lparr>missingIndex := missingIndex bs @ [d]\<rparr>
      else if Diff.Type d = MissingConstraint then bs\<lparr>missingConstraint := missingConstraint bs @ [d]\<rparr>
      else if Diff.Type d = WrongConstraintOther
        then bs\<lparr>wrongConstraintOther := wrongConstraintOther bs @ [d]\<rparr>
      else bs)"

fun groupLoop :: "Buckets \<Rightarrow> Diff list \<Rightarrow> Buckets" where
  "groupLoop bs [] = bs"
| "groupLoop bs (d # ds) = groupLoop (groupStep bs d) ds"

definition groupByType :: "Diff list \<Rightarrow> Diff list" where
  "groupByType ds =
     (let bs = groupLoop emptyBuckets ds;
          slices = [missingTable bs, missingColumn bs, wrongColumnType bs, wrongColumnOther bs,
                    missingConstraint bs, wrongConstraintOther bs, missingIndex bs]
      in foldl (\<lambda>res slice. res @ slice) [] slices)"

section \<open>compareTables\<close>

text \<open>
  Each \<open>range\<close> loop of \<open>compareTables\<close> is a recursion over the entries still to visit,
  with the slice \<open>diffs\<close> as accumulator. The column loop: a column of \<open>tableA\<close> that
  \<open>tableB\<close> lacks appends MISSING_COLUMN and goes on to the next column; otherwise the
  type test and the other test each append their own record.
\<close>

fun compareColumns :: "Table \<Rightarrow> Table \<Rightarrow> (string \<times> Column) list \<Rightarrow> Diff list \<Rightarrow> Diff list" where
  "compareColumns tableA tableB [] diffs = diffs"
| "compareColumns tableA tableB ((k, columnA) # rest) diffs =
     (case map_of (Columns tableB) (Column.Name columnA) of
        None \<Rightarrow>
          compareColumns tableA tableB rest
            (diffs @ [\<lparr>Diff.Type = MissingColumn, Target = Table.Name tableA,
                        A = Column.Name columnA, B = ''''\<rparr>])
      | Some columnB \<Rightarrow>
          (let diffs1 =
                 (if Column.Type columnA \<noteq> Column.Type columnB
                  then diffs @ [\<lparr>Diff.Type = WrongColumnType,
                                  Target = Sprintf2 (Table.Name tableA) (Column.Name columnA),
                                  A = Column.Type columnA, B = Column.Type columnB\<rparr>]
                  else diffs);
               diffs2 =
                 (if Column.Other columnA \<noteq> Column.Other columnB
                  then diffs1 @ [\<lparr>Diff.Type = WrongColumnOther,
                                   Target = Sprintf2 (Table.Name tableA) (Column.Name columnA),
                                   A = Column.Other columnA, B = Column.Other columnB\<rparr>]
                  else diffs1)
           in compareColumns tableA tableB rest diffs2))"

fun compareIndexes :: "Table \<Rightarrow> Table \<Rightarrow> (string \<times> Index) list \<Rightarrow> Diff list \<Rightarrow> Diff list" where
  "compareIndexes tableA tableB [] diffs = diffs"
| "compareIndexes tableA tableB ((k, indexA) # rest) diffs =
     (case map_of (Indexes tableB) (Index.ColumnName indexA) of
        None \<Rightarrow>
          compareIndexes tableA tableB rest
            (diffs @ [\<lparr>Diff.Type = MissingIndex,
                        Target = Sprintf2 (Table.Name tableA) (Index.ColumnName indexA),
                        A = Index.Name indexA, B = ''''\<rparr>])
      | Some indexB \<Rightarrow> compareIndexes tableA tableB rest diffs)"

text \<open>
  \<open>tableB.Constraints[columnNameA][constraintTypeA]\<close>: a missing outer key gives the nil
  map, and a lookup in the nil map finds nothing.
\<close>

definition lookupConstraint :: "Table \<Rightarrow> string \<Rightarrow> string \<Rightarrow> Constraint option" where
  "lookupConstraint t columnName constraintType =
     (case map_of (Constraints t) columnName of
        None \<Rightarrow> None
      | Some m \<Rightarrow> map_of m constraintType)"

fun compareConstraintTypes ::
  "Table \<Rightarrow> Table \<Rightarrow> string \<Rightarrow> (string \<times> Constraint) list \<Rightarrow> Diff list \<Rightarrow> Diff list" where
  "compareConstraintTypes tableA tableB columnNameA [] diffs = diffs"
| "compareConstraintTypes tableA tableB columnNameA ((constraintTypeA, constraintA) # rest) diffs =
     (case lookupConstraint tableB columnNameA constraintTypeA of
        None \<Rightarrow>
          compareConstraintTypes tableA tableB columnNameA rest
            (diffs @ [\<lparr>Diff.Type = MissingConstraint,
                        Target = Sprintf2 (Table.Name tableA) columnNameA,
                        A = Constraint.Type constraintA, B = ''''\<rparr>])
      | Some constraintB \<Rightarrow>
          compareConstraintTypes tableA tableB columnNameA rest
            (if Constraint.Other constraintA \<noteq> Constraint.Other constraintB
             then diffs @ [\<lparr>Diff.Type = WrongConstraintOther,
                             Target = Sprintf3 (Table.Name tableA) columnNameA
                                        (Constraint.Type constraintA),
                             A = Constraint.Other constraintA,
                             B = Constraint.Other constraintB\<rparr>]
             else diffs))"

fun compareConstraints ::
  "Table \<Rightarrow> Table \<Rightarrow> (string \<times> (string \<times> Constraint) list) list \<Rightarrow> Diff list \<Rightarrow> Diff list" where
  "compareConstraints tableA tableB [] diffs = diffs"
| "compareConstraints tableA tableB ((columnNameA, columnsWithConstraintsA) # rest) diffs =
     compareConstraints tableA tableB rest
       (compareConstraintTypes tableA tableB columnNameA columnsWithConstraintsA diffs)"

text \<open>
  The outer loop over \<open>tableMapA\<close>. The table of B is looked up under \<open>tableA.Name\<close>, the
  field of the value, not under the key of the entry.
\<close>

fun compareTablesLoop ::
  "(string \<times> Table) list \<Rightarrow> (string \<times> Table) list \<Rightarrow> Diff list \<Rightarrow> Diff list" where
  "compareTablesLoop [] tableMapB diffs = diffs"
| "compareTablesLoop ((k, tableA) # rest) tableMapB diffs =
     (case map_of tableMapB (Table.Name tableA) of
        None \<Rightarrow>
          compareTablesLoop rest tableMapB
            (diffs @ [\<lparr>Diff.Type = MissingTable, Target = Table.Name tableA,
                        A = Table.Name tableA, B = ''''\<rparr>])
      | Some tableB \<Rightarrow>
          compareTablesLoop rest tableMapB
            (compareConstraints tableA tableB (Constraints tableA)
               (compareIndexes tableA tableB (Indexes tableA)
                  (compareColumns tableA tableB (Columns tableA) diffs))))"

definition compareTables :: "(string \<times> Table) list \<Rightarrow> (string \<times> Table) list \<Rightarrow> Diff list" where
  "compareTables tableMapA tableMapB = compareTablesLoop tableMapA tableMapB []"

section \<open>parseTables\<close>

text \<open>
  An index past the end of a slice is a run-time panic in Go; the model returns it as a
  value. \<open>index infos i\<close> is \<open>infos[i]\<close> and \<open>sliceFrom infos i\<close> is \<open>infos[i:]\<close>, which
  is still legal at \<open>i = len(infos)\<close>.
\<close>

datatype error = IndexOutOfRange

definition index :: "string list \<Rightarrow> nat \<Rightarrow> error + string" where
  "index infos i = (if i < length infos then Inr (infos ! i) else Inl IndexOutOfRange)"

definition sliceFrom :: "string list \<Rightarrow> nat \<Rightarrow> error + string list" where
  "sliceFrom infos i = (if i \<le> length infos then Inr (drop i infos) else Inl IndexOutOfRange)"

definition andThen :: "error + 'a \<Rightarrow> ('a \<Rightarrow> error + 'b) \<Rightarrow> error + 'b" where
  "andThen m f = (case m of Inl e \<Rightarrow> Inl e | Inr x \<Rightarrow> f x)"

text \<open>The slice \<open>keywords\<close> (the name is reserved in a theory, hence the suffix).\<close>

definition keywordsList :: "string list" where
  "keywordsList = [''PRIMARY'', ''KEY'', ''CONSTRAINT'', ''UNIQUE'']"

fun isKeywordLoop :: "string list \<Rightarrow> string \<Rightarrow> bool" where
  "isKeywordLoop [] str = False"
| "isKeywordLoop (v # vs) str =
     (if str = v \<or> str = '''' \<or> str = ''--'' then True else isKeywordLoop vs str)"

definition isKeyword :: "string \<Rightarrow> bool" where
  "isKeyword str = isKeywordLoop keywordsList str"

text \<open>
  The variables of \<open>parseTables\<close> that live across the lines. \<open>var table Table\<close> starts as
  the zero value: the empty name and three nil maps.
\<close>

record ParseState =
  table :: Table
  tables :: "(string \<times> Table) list"
  analyzingTable :: bool

definition zeroTable :: Table where
  "zeroTable = \<lparr>Table.Name = '''', Columns = [], Indexes = [], Constraints = []\<rparr>"

definition initState :: ParseState where
  "initState = \<lparr>table = zeroTable, tables = [], analyzingTable = False\<rparr>"

text \<open>
  \<open>infos[0] == "CREATE" && infos[1] == "TABLE"\<close>: the second operand is evaluated only
  when the first holds, and then reads \<open>infos[1]\<close> without a length test.
\<close>

definition isHeader :: "string list \<Rightarrow> error + bool" where
  "isHeader infos =
     (if infos ! 0 = ''CREATE''
      then andThen (index infos 1) (\<lambda>t. Inr (t = ''TABLE''))
      else Inr False)"

text \<open>The table header: commit the table under construction, open a new one.\<close>

definition openTable :: "ParseState \<Rightarrow> string list \<Rightarrow> error + ParseState" where
  "openTable st infos =
     (let tables1 =
            (if analyzingTable st
             then AList.update (Table.Name (table st)) (table st) (tables st)
             else tables st)
      in andThen (index infos 2) (\<lambda>t.
           Inr \<lparr>table = \<lparr>Table.Name = Trim t ''`'', Columns = [], Indexes = [],
                          Constraints = []\<rparr>,
                tables = tables1, analyzingTable = True\<rparr>))"

text \<open>The column definition: \<open>infos[2:]\<close> is read first, then \<open>infos[0]\<close> and \<open>infos[1]\<close>.\<close>

definition columnDefinition :: "ParseState \<Rightarrow> string list \<Rightarrow> error + ParseState" where
  "columnDefinition st infos =
     andThen (sliceFrom infos 2) (\<lambda>rest.
       let other = Trim (Join rest '' '') '','';
           name = Trim (infos ! 0) ''`''
       in andThen (index infos 1) (\<lambda>ty.
            let column = \<lparr>Column.Name = name, Column.Type = ty, Column.Other = other\<rparr>
            in Inr (st\<lparr>table := (table st)\<lparr>Columns :=
                 AList.update name column (Columns (table st))\<rparr>\<rparr>)))"

definition indexDefinition :: "ParseState \<Rightarrow> string list \<Rightarrow> error + ParseState" where
  "indexDefinition st infos =
     (if analyzingTable st \<and> infos ! 0 = ''KEY''
      then andThen (index infos 1) (\<lambda>i1.
           andThen (index infos 2) (\<lambda>i2.
             let name = Trim i1 ''`'';
                 columnName = Trim (Trim (Trim (Trim i2 '','') ''('') '')'') ''`'';
                 idx = \<lparr>Index.Name = name, Index.ColumnName = columnName\<rparr>
             in Inr (st\<lparr>table := (table st)\<lparr>Indexes :=
                  AList.update columnName idx (Indexes (table st))\<rparr>\<rparr>)))
      else Inr st)"

text \<open>
  \<open>if table.Constraints[columnName] == nil { ... = make(...) }\<close> followed by
  \<open>table.Constraints[columnName][constraintType] = constraint\<close>.
\<close>

definition putConstraint ::
  "string \<Rightarrow> string \<Rightarrow> Constraint \<Rightarrow> (string \<times> (string \<times> Constraint) list) list
     \<Rightarrow> (string \<times> (string \<times> Constraint) list) list" where
  "putConstraint columnName constraintType constraint cs =
     (let inner = (case map_of cs columnName of None \<Rightarrow> [] | Some m \<Rightarrow> m)
      in AList.update columnName (AList.update constraintType constraint inner) cs)"

text \<open>
  The struct that a CONSTRAINT line builds (\<open>infos[1]\<close>, \<open>infos[4]\<close>, \<open>infos[2]\<close> and
  \<open>infos[5:]\<close> are read in this order), and the one that a PRIMARY or UNIQUE line builds.
\<close>

definition namedConstraint :: "string list \<Rightarrow> error + Constraint" where
  "namedConstraint infos =
     andThen (index infos 1) (\<lambda>i1.
     andThen (index infos 4) (\<lambda>i4.
     andThen (index infos 2) (\<lambda>constraintType.
     andThen (sliceFrom infos 5) (\<lambda>rest.
       let name = Trim i1 ''`'';
           columnName = Trim (Trim (Trim i4 ''('') '')'') ''`'';
           other = Trim (Join rest '' '') '',''
       in Inr \<lparr>Constraint.Name = name, Constraint.ColumnName = columnName,
                Constraint.Type = constraintType, Constraint.Other = other\<rparr>))))"

definition keyConstraint :: "string list \<Rightarrow> error + Constraint" where
  "keyConstraint infos =
     andThen (index infos 2) (\<lambda>i2.
       let columnName = Trim (Trim (Trim (Trim i2 '','') ''('') '')'') ''`'';
           constraintType = infos ! 0;
           name = columnName
       in Inr \<lparr>Constraint.Name = name, Constraint.ColumnName = columnName,
                Constraint.Type = constraintType, Constraint.Other = ''''\<rparr>)"

text \<open>
  The store that ends both blocks. Its keys are the locals \<open>columnName\<close> and
  \<open>constraintType\<close>, which are the fields \<open>ColumnName\<close> and \<open>Type\<close> of the struct just
  built.
\<close>

definition storeConstraint :: "ParseState \<Rightarrow> Constraint \<Rightarrow> ParseState" where
  "storeConstraint st constraint =
     st\<lparr>table := (table st)\<lparr>Constraints :=
       putConstraint (Constraint.ColumnName constraint) (Constraint.Type constraint) constraint
         (Constraints (table st))\<rparr>\<rparr>"

definition constraintDefinition :: "ParseState \<Rightarrow> string list \<Rightarrow> error + ParseState" where
  "constraintDefinition st infos =
     (if analyzingTable st \<and> infos ! 0 = ''CONSTRAINT''
      then andThen (namedConstraint infos) (\<lambda>constraint. Inr (storeConstraint st constraint))
      else Inr st)"

definition keyDefinition :: "ParseState \<Rightarrow> string list \<Rightarrow> error + ParseState" where
  "keyDefinition st infos =
     (if analyzingTable st \<and> (infos ! 0 = ''PRIMARY'' \<or> infos ! 0 = ''UNIQUE'')
      then andThen (keyConstraint infos) (\<lambda>constraint. Inr (storeConstraint st constraint))
      else Inr st)"

text \<open>
  The tokens of a line: \<open>strings.Trim(value, " ")\<close>, then \<open>strings.Split(value, " ")\<close>.
  One turn of the loop over the lines. The ENGINE test and the header test come first and
  do not look at \<open>analyzingTable\<close>; the column branch ends with \<open>continue\<close>; the KEY,
  CONSTRAINT and PRIMARY/UNIQUE blocks follow one another without \<open>continue\<close>.
\<close>

definition infosOf :: "string \<Rightarrow> string list" where
  "infosOf value0 = Split (Trim value0 '' '') CHR '' ''"

definition parseLine :: "ParseState \<Rightarrow> string \<Rightarrow> error + ParseState" where
  "parseLine st value0 =
     (let infos = infosOf value0 in
      if length infos > 1 \<and> infos ! 1 = ''ENGINE=InnoDB'' then Inr st
      else andThen (isHeader infos) (\<lambda>header.
        if header then openTable st infos
        else if analyzingTable st \<and> \<not> isKeyword (infos ! 0) then columnDefinition st infos
        else andThen (indexDefinition st infos) (\<lambda>st1.
             andThen (constraintDefinition st1 infos) (\<lambda>st2.
               keyDefinition st2 infos))))"

fun parseLoop :: "ParseState \<Rightarrow> string list \<Rightarrow> error + ParseState" where
  "parseLoop st [] = Inr st"
| "parseLoop st (l # ls) =
     (case parseLine st l of Inl e \<Rightarrow> Inl e | Inr st1 \<Rightarrow> parseLoop st1 ls)"

text \<open>After the last line the current table is stored without any test.\<close>

definition parseTables :: "string \<Rightarrow> error + (string \<times> Table) list" where
  "parseTables data =
     (case parseLoop initState (Split data CHR ''\<newline>'') of
        Inl e \<Rightarrow> Inl e
      | Inr st \<Rightarrow> Inr (AList.update (Table.Name (table st)) (table st) (tables st)))"

text \<open>The order in which \<open>groupByType\<close> lays out its slices.\<close>

definition kindOrder :: "string list" where
  "kindOrder = [MissingTable, MissingColumn, WrongColumnType, WrongColumnOther,
                MissingConstraint, WrongConstraintOther, MissingIndex]"

section \<open>Well-formed schemas\<close>

text \<open>
  What the maps of a schema are keyed by: a table under its \<open>Name\<close>, a column under its
  \<open>Name\<close>, an index under its \<open>ColumnName\<close>. The keys of an association list that stands
  for a Go map are distinct.
\<close>

definition keyedColumns :: "(string \<times> Column) list \<Rightarrow> bool" where
  "keyedColumns cs \<longleftrightarrow> distinct (map fst cs) \<and> (\<forall>(k, c) \<in> set cs. Column.Name c = k)"

definition keyedIndexes :: "(string \<times> Index) list \<Rightarrow> bool" where
  "keyedIndexes is \<longleftrightarrow> distinct (map fst is) \<and> (\<forall>(k, i) \<in> set is. Index.ColumnName i = k)"

definition distinctConstraints :: "(string \<times> (string \<times> Constraint) list) list \<Rightarrow> bool" where
  "distinctConstraints cs \<longleftrightarrow>
     distinct (map fst cs) \<and> (\<forall>(c, m) \<in> set cs. distinct (map fst m))"

definition wfTable :: "Table \<Rightarrow> bool" where
  "wfTable t \<longleftrightarrow>
     keyedColumns (Columns t) \<and> keyedIndexes (Indexes t) \<and> distinctConstraints (Constraints t)"

definition wfSchema :: "(string \<times> Table) list \<Rightarrow> bool" where
  "wfSchema s \<longleftrightarrow> distinct (map fst s) \<and> (\<forall>(k, t) \<in> set s. Table.Name t = k \<and> wfTable t)"

definition wfState :: "ParseState \<Rightarrow> bool" where
  "wfState st \<longleftrightarrow> wfTable (table st) \<and> wfSchema (tables st)"

section \<open>What a diff record is about, and schemas that agree on the elements of A\<close>

definition aboutTable :: "Table \<Rightarrow> Diff \<Rightarrow> bool" where
  "aboutTable tA d \<longleftrightarrow>
     (Diff.Type d = MissingTable \<and> Target d = Table.Name tA \<and> A d = Table.Name tA)
   \<or> (\<exists>(kc, cA) \<in> set (Columns tA).
         (Diff.Type d = MissingColumn \<and> Target d = Table.Name tA \<and> A d = Column.Name cA)
       \<or> (Diff.Type d = WrongColumnType
            \<and> Target d = Sprintf2 (Table.Name tA) (Column.Name cA) \<and> A d = Column.Type cA)
       \<or> (Diff.Type d = WrongColumnOther
            \<and> Target d = Sprintf2 (Table.Name tA) (Column.Name cA) \<and> A d = Column.Other cA))
   \<or> (\<exists>(ki, iA) \<in> set (Indexes tA).
         Diff.Type d = MissingIndex
         \<and> Target d = Sprintf2 (Table.Name tA) (Index.ColumnName iA) \<and> A d = Index.Name iA)
   \<or> (\<exists>(c, m) \<in> set (Constraints tA). \<exists>(ty, cA) \<in> set m.
         (Diff.Type d = MissingConstraint
            \<and> Target d = Sprintf2 (Table.Name tA) c \<and> A d = Constraint.Type cA)
       \<or> (Diff.Type d = WrongConstraintOther
            \<and> Target d = Sprintf3 (Table.Name tA) c (Constraint.Type cA)
            \<and> A d = Constraint.Other cA))"

definition aboutSchema :: "(string \<times> Table) list \<Rightarrow> Diff \<Rightarrow> bool" where
  "aboutSchema tableMapA d \<longleftrightarrow> (\<exists>(k, tA) \<in> set tableMapA. aboutTable tA d)"

definition sameForTable :: "Table \<Rightarrow> Table \<Rightarrow> Table \<Rightarrow> bool" where
  "sameForTable tA tB tB' \<longleftrightarrow>
     (\<forall>(kc, cA) \<in> set (Columns tA).
        map_of (Columns tB) (Column.Name cA) = map_of (Columns tB') (Column.Name cA))
   \<and> (\<forall>(ki, iA) \<in> set (Indexes tA).
        (map_of (Indexes tB) (Index.ColumnName iA) = None)
          = (map_of (Indexes tB') (Index.ColumnName iA) = None))
   \<and> (\<forall>(c, m) \<in> set (Constraints tA). \<forall>(ty, cA) \<in> set m.
        lookupConstraint tB c ty = lookupConstraint tB' c ty)"

definition sameOn ::
  "(string \<times> Table) list \<Rightarrow> (string \<times> Table) list \<Rightarrow> (string \<times> Table) list \<Rightarrow> bool" where
  "sameOn tableMapA tableMapB tableMapB' \<longleftrightarrow>
     (\<forall>(k, tA) \<in> set tableMapA.
        (case map_of tableMapB (Table.Name tA) of
           None \<Rightarrow> map_of tableMapB' (Table.Name tA) = None
         | Some tB \<Rightarrow>
             (case map_of tableMapB' (Table.Name tA) of
                None \<Rightarrow> False
              | Some tB' \<Rightarrow> sameForTable tA tB tB')))"

section \<open>Example schema texts\<close>

text \<open>
  Two dumps of a table \<open>users\<close> and the schemas that \<open>parseTables\<close> returns for them
  (\<open>parse_exampleTextA\<close>, \<open>parse_exampleTextB\<close>), a parser state inside a table body, a
  dump with two constraint lines for one column and kind, and the two one-column dumps of
  the trailing-comma case.
\<close>

definition exampleTextA :: string where
  "exampleTextA =
     ''CREATE TABLE `users` (\<newline>'' @
     ''  `id` INT,\<newline>'' @
     ''  `name` VARCHAR(50) NOT NULL,\<newline>'' @
     ''  `org_id` INT,\<newline>'' @
     ''  KEY `idx_name` (`name`),\<newline>'' @
     ''  KEY `idx_org` (`org_id`),\<newline>'' @
     ''  PRIMARY KEY (`id`),\<newline>'' @
     ''  CONSTRAINT `fk_x` FOREIGN KEY (`org_id`) REFERENCES orgs(id)\<newline>'' @
     '') ENGINE=InnoDB DEFAULT CHARSET=utf8;''"

definition exampleUsersA :: Table where
  "exampleUsersA =
     \<lparr>Table.Name = ''users'',
      Columns =
        [(''id'', \<lparr>Column.Name = ''id'', Column.Type = ''INT,'', Column.Other = ''''\<rparr>),
         (''name'', \<lparr>Column.Name = ''name'', Column.Type = ''VARCHAR(50)'',
                     Column.Other = ''NOT NULL''\<rparr>),
         (''org_id'', \<lparr>Column.Name = ''org_id'', Column.Type = ''INT,'', Column.Other = ''''\<rparr>)],
      Indexes =
        [(''name'', \<lparr>Index.Name = ''idx_name'', Index.ColumnName = ''name''\<rparr>),
         (''org_id'', \<lparr>Index.Name = ''idx_org'', Index.ColumnName = ''org_id''\<rparr>)],
      Constraints =
        [(''id'', [(''PRIMARY'', \<lparr>Constraint.Name = ''id'', Constraint.ColumnName = ''id'',
                                  Constraint.Type = ''PRIMARY'', Constraint.Other = ''''\<rparr>)]),
         (''org_id'', [(''FOREIGN'', \<lparr>Constraint.Name = ''fk_x'',
                                      Constraint.ColumnName = ''org_id'',
                                      Constraint.Type = ''FOREIGN'',
                                      Constraint.Other = ''REFERENCES orgs(id)''\<rparr>)])]\<rparr>"

definition exampleSchemaA :: "(string \<times> Table) list" where
  "exampleSchemaA = [(''users'', exampleUsersA)]"

definition exampleTextB :: string where
  "exampleTextB =
     ''CREATE TABLE `users` (\<newline>'' @
     ''  `id` INT NOT NULL,\<newline>'' @
     ''  `org_id` INT,\<newline>'' @
     ''  KEY `ix_org` (`org_id`),\<newline>'' @
     ''  CONSTRAINT `fk_x` FOREIGN KEY (`org_id`) REFERENCES other(id)\<newline>'' @
     '') ENGINE=InnoDB DEFAULT CHARSET=utf8;''"

definition exampleUsersB :: Table where
  "exampleUsersB =
     \<lparr>Table.Name = ''users'',
      Columns =
        [(''id'', \<lparr>Column.Name = ''id'', Column.Type = ''INT'', Column.Other = ''NOT NULL''\<rparr>),
         (''org_id'', \<lparr>Column.Name = ''org_id'', Column.Type = ''INT,'', Column.Other = ''''\<rparr>)],
      Indexes =
        [(''org_id'', \<lparr>Index.Name = ''ix_org'', Index.ColumnName = ''org_id''\<rparr>)],
      Constraints =
        [(''org_id'', [(''FOREIGN'', \<lparr>Constraint.Name = ''fk_x'',
                                      Constraint.ColumnName = ''org_id'',
                                      Constraint.Type = ''FOREIGN'',
                                      Constraint.Other = ''REFERENCES other(id)''\<rparr>)])]\<rparr>"

definition exampleSchemaB :: "(string \<times> Table) list" where
  "exampleSchemaB = [(''users'', exampleUsersB)]"

text \<open>The schema of B with a column, an index, a constraint and a table that A lacks.\<close>

definition exampleSchemaB' :: "(string \<times> Table) list" where
  "exampleSchemaB' =
     [(''users'',
       exampleUsersB\<lparr>
         Columns := Columns exampleUsersB @
           [(''extra'', \<lparr>Column.Name = ''extra'', Column.Type = ''TEXT'', Column.Other = ''''\<rparr>)],
         Indexes := Indexes exampleUsersB @
           [(''extra'', \<lparr>Index.Name = ''ix_extra'', Index.ColumnName = ''extra''\<rparr>)],
         Constraints := Constraints exampleUsersB @
           [(''extra'', [(''UNIQUE'', \<lparr>Constraint.Name = ''extra'',
                                       Constraint.ColumnName = ''extra'',
                                       Constraint.Type = ''UNIQUE'', Constraint.Other = ''''\<rparr>)])]\<rparr>),
      (''logs'', \<lparr>Table.Name = ''logs'',
                  Columns = [(''id'', \<lparr>Column.Name = ''id'', Column.Type = ''INT'',
                                        Column.Other = ''''\<rparr>)],
                  Indexes = [], Constraints = []\<rparr>)]"

definition exampleState :: ParseState where
  "exampleState =
     \<lparr>table = \<lparr>Table.Name = ''users'', Columns = [], Indexes = [],
                Constraints =
                  [(''org_id'', [(''FOREIGN'', \<lparr>Constraint.Name = ''fk_x'',
                                      Constraint.ColumnName = ''org_id'',
                                      Constraint.Type = ''FOREIGN'',
                                      Constraint.Other = ''REFERENCES orgs(id)''\<rparr>)])]\<rparr>,
      tables = [], analyzingTable = True\<rparr>"

definition exampleTextDup :: string where
  "exampleTextDup =
     ''CREATE TABLE `users` (\<newline>'' @
     ''  CONSTRAINT `fk_x` FOREIGN KEY (`org_id`) REFERENCES orgs(id),\<newline>'' @
     ''  CONSTRAINT `fk_y` FOREIGN KEY (`org_id`) REFERENCES other(id)\<newline>'' @
     '') ENGINE=InnoDB DEFAULT CHARSET=utf8;''"

definition exampleSchemaDup :: "(string \<times> Table) list" where
  "exampleSchemaDup =
     [(''users'',
       \<lparr>Table.Name = ''users'', Columns = [], Indexes = [],
        Constraints =
          [(''org_id'', [(''FOREIGN'', \<lparr>Constraint.Name = ''fk_y'',
                                        Constraint.ColumnName = ''org_id'',
                                        Constraint.Type = ''FOREIGN'',
                                        Constraint.Other = ''REFERENCES other(id)''\<rparr>)])]\<rparr>)]"

definition exampleTextComma :: string where
  "exampleTextComma =
     ''CREATE TABLE t (\<newline>'' @
     ''id INT,\<newline>'' @
     '') ENGINE=InnoDB DEFAULT CHARSET=utf8;''"

definition exampleSchemaComma :: "(string \<times> Table) list" where
  "exampleSchemaComma =
     [(''t'', \<lparr>Table.Name = ''t'',
               Columns = [(''id'', \<lparr>Column.Name = ''id'', Column.Type = ''INT,'',
                                     Column.Other = ''''\<rparr>)],
               Indexes = [], Constraints = []\<rparr>)]"

definition exampleTextPlain :: string where
  "exampleTextPlain =
     ''CREATE TABLE t (\<newline>'' @
     ''id INT NOT NULL,\<newline>'' @
     '') ENGINE=InnoDB DEFAULT CHARSET=utf8;''"

definition exampleSchemaPlain :: "(string \<times> Table) list" where
  "exampleSchemaPlain =
     [(''t'', \<lparr>Table.Name = ''t'',
               Columns = [(''id'', \<lparr>Column.Name = ''id'', Column.Type = ''INT'',
                                     Column.Other = ''NOT NULL''\<rparr>)],
               Indexes = [], Constraints = []\<rparr>)]"

definition exampleLine :: string where
  "exampleLine = ''  CONSTRAINT `fk_y` FOREIGN KEY (`org_id`) REFERENCES other(id)''"

definition exampleConstraint :: Constraint where
  "exampleConstraint =
     \<lparr>Constraint.Name = ''fk_y'', Constraint.ColumnName = ''org_id'',
      Constraint.Type = ''FOREIGN'', Constraint.Other = ''REFERENCES other(id)''\<rparr>"

section \<open>Properties of groupByType\<close>

lemmas kind_defs = MissingTable_def MissingColumn_def WrongColumnType_def WrongColumnOther_def
  MissingIndex_def MissingConstraint_def WrongConstraintOther_def

lemma distinct_kindOrder: "distinct kindOrder"
  by (simp add: kindOrder_def kind_defs)

lemma groupLoop_buckets:
  "groupLoop bs ds =
     \<lparr>missingTable = missingTable bs @ filter (\<lambda>d. Diff.Type d = MissingTable) ds,
      missingColumn = missingColumn bs @ filter (\<lambda>d. Diff.Type d = MissingColumn) ds,
      wrongColumnType = wrongColumnType bs @ filter (\<lambda>d. Diff.Type d = WrongColumnType) ds,
      wrongColumnOther = wrongColumnOther bs @ filter (\<lambda>d. Diff.Type d = WrongColumnOther) ds,
      missingIndex = missingIndex bs @ filter (\<lambda>d. Diff.Type d = MissingIndex) ds,
      missingConstraint = missingConstraint bs @ filter (\<lambda>d. Diff.Type d = MissingConstraint) ds,
      wrongConstraintOther =
        wrongConstraintOther bs @ filter (\<lambda>d. Diff.Type d = WrongConstraintOther) ds\<rparr>"
proof (induction ds arbitrary: bs)
  case Nil
  show ?case by simp
next
  case (Cons d ds)
  show ?case
    unfolding groupLoop.simps Cons.IH
    by (simp add: groupStep_def kind_defs)
qed

lemma groupByType_filters:
  "groupByType ds = concat (map (\<lambda>k. filter (\<lambda>d. Diff.Type d = k) ds) kindOrder)"
  by (simp add: groupByType_def groupLoop_buckets emptyBuckets_def kindOrder_def Let_def)

lemma mset_buckets:
  "distinct ks \<Longrightarrow>
   mset (concat (map (\<lambda>k. filter (\<lambda>d. f d = k) ds) ks)) = mset (filter (\<lambda>d. f d \<in> set ks) ds)"
proof (induction ks)
  case Nil
  show ?case by simp
next
  case (Cons k ks)
  have "mset (filter (\<lambda>d. f d = k) ds) + mset (filter (\<lambda>d. f d \<in> set ks) ds)
        = mset (filter (\<lambda>d. f d \<in> set (k # ks)) ds)"
    using Cons.prems by (induction ds) auto
  with Cons show ?case by simp
qed

section \<open>The loops of compareTables, entry by entry\<close>

text \<open>
  Every loop only appends to \<open>diffs\<close>, so its result is the accumulator followed by what
  the loop appends from the empty slice, and that is the concatenation of what each entry
  appends on its own.
\<close>

lemma compareColumns_acc:
  "compareColumns tA tB cs (d1 @ d2) = d1 @ compareColumns tA tB cs d2"
  by (induction cs arbitrary: d2) (auto simp: Let_def split: option.splits)

lemma compareIndexes_acc:
  "compareIndexes tA tB is (d1 @ d2) = d1 @ compareIndexes tA tB is d2"
  by (induction "is" arbitrary: d2) (auto split: option.splits)

lemma compareConstraintTypes_acc:
  "compareConstraintTypes tA tB c ks (d1 @ d2) = d1 @ compareConstraintTypes tA tB c ks d2"
  by (induction ks arbitrary: d2) (auto split: option.splits)

lemma compareConstraints_acc:
  "compareConstraints tA tB cs (d1 @ d2) = d1 @ compareConstraints tA tB cs d2"
  by (induction cs arbitrary: d2) (auto simp: compareConstraintTypes_acc)

lemma compareTablesLoop_acc:
  "compareTablesLoop ta tb (d1 @ d2) = d1 @ compareTablesLoop ta tb d2"
  by (induction ta arbitrary: d2)
     (auto simp: compareColumns_acc compareIndexes_acc compareConstraints_acc split: option.splits)

lemma compareColumns_from_empty:
  "compareColumns tA tB cs diffs = diffs @ compareColumns tA tB cs []"
  using compareColumns_acc [of tA tB cs diffs "[]"] by simp

lemma compareIndexes_from_empty:
  "compareIndexes tA tB is diffs = diffs @ compareIndexes tA tB is []"
  using compareIndexes_acc [of tA tB "is" diffs "[]"] by simp

lemma compareConstraintTypes_from_empty:
  "compareConstraintTypes tA tB c ks diffs = diffs @ compareConstraintTypes tA tB c ks []"
  using compareConstraintTypes_acc [of tA tB c ks diffs "[]"] by simp

lemma compareConstraints_from_empty:
  "compareConstraints tA tB cs diffs = diffs @ compareConstraints tA tB cs []"
  using compareConstraints_acc [of tA tB cs diffs "[]"] by simp

lemma compareTablesLoop_from_empty:
  "compareTablesLoop ta tb diffs = diffs @ compareTablesLoop ta tb []"
  using compareTablesLoop_acc [of ta tb diffs "[]"] by simp

lemma compareColumns_Cons:
  "compareColumns tA tB (x # rest) [] = compareColumns tA tB [x] [] @ compareColumns tA tB rest []"
  by (cases x) (auto simp: Let_def compareColumns_from_empty [of tA tB rest "_ # _"]
      split: option.splits)

lemma compareIndexes_Cons:
  "compareIndexes tA tB (x # rest) [] = compareIndexes tA tB [x] [] @ compareIndexes tA tB rest []"
  by (cases x) (auto simp: compareIndexes_from_empty [of tA tB rest "_ # _"] split: option.splits)

lemma compareConstraintTypes_Cons:
  "compareConstraintTypes tA tB c (x # rest) [] =
     compareConstraintTypes tA tB c [x] [] @ compareConstraintTypes tA tB c rest []"
  by (cases x) (auto simp: compareConstraintTypes_from_empty [of tA tB c rest "_ # _"]
      split: option.splits)

lemma compareConstraints_Cons:
  "compareConstraints tA tB (x # rest) [] =
     compareConstraints tA tB [x] [] @ compareConstraints tA tB rest []"
  by (cases x) (simp add: compareConstraints_from_empty [of tA tB rest "compareConstraintTypes _ _ _ _ _"])

lemma compareTablesLoop_Cons:
  "compareTablesLoop (x # rest) tb [] = compareTablesLoop [x] tb [] @ compareTablesLoop rest tb []"
  by (cases x) (simp add: compareTablesLoop_from_empty [of rest tb "_ # _"] 
   compareTablesLoop_from_empty [of rest tb "compareConstraints _ _ _ _"] split: option.splits)

lemma compareColumns_concat:
  "compareColumns tA tB cs [] = concat (map (\<lambda>x. compareColumns tA tB [x] []) cs)"
proof (induction cs)
  case Nil
  show ?case by simp
next
  case (Cons x cs)
  show ?case
    using compareColumns_Cons [of tA tB x cs] Cons.IH by simp
qed

lemma compareIndexes_concat:
  "compareIndexes tA tB is [] = concat (map (\<lambda>x. compareIndexes tA tB [x] []) is)"
proof (induction "is")
  case Nil
  show ?case by simp
next
  case (Cons x xs)
  show ?case
    using compareIndexes_Cons [of tA tB x xs] Cons.IH by simp
qed

lemma compareConstraintTypes_concat:
  "compareConstraintTypes tA tB c ks [] =
     concat (map (\<lambda>x. compareConstraintTypes tA tB c [x] []) ks)"
proof (induction ks)
  case Nil
  show ?case by simp
next
  case (Cons x ks)
  show ?case
    using compareConstraintTypes_Cons [of tA tB c x ks] Cons.IH by simp
qed

lemma compareConstraints_concat:
  "compareConstraints tA tB cs [] = concat (map (\<lambda>x. compareConstraints tA tB [x] []) cs)"
proof (induction cs)
  case Nil
  show ?case by simp
next
  case (Cons x cs)
  show ?case
    using compareConstraints_Cons [of tA tB x cs] Cons.IH by simp
qed

lemma compareTablesLoop_concat:
  "compareTablesLoop ta tb [] = concat (map (\<lambda>x. compareTablesLoop [x] tb []) ta)"
proof (induction ta)
  case Nil
  show ?case by simp
next
  case (Cons x ta)
  show ?case
    using compareTablesLoop_Cons [of x ta tb] Cons.IH by simp
qed

text \<open>What one entry of each loop appends.\<close>

lemma compareColumns_single:
  "compareColumns tA tB [(k, cA)] [] =
     (case map_of (Columns tB) (Column.Name cA) of
        None \<Rightarrow> [\<lparr>Diff.Type = MissingColumn, Target = Table.Name tA,
                    A = Column.Name cA, B = ''''\<rparr>]
      | Some cB \<Rightarrow>
          (if Column.Type cA \<noteq> Column.Type cB
           then [\<lparr>Diff.Type = WrongColumnType,
                   Target = Sprintf2 (Table.Name tA) (Column.Name cA),
                   A = Column.Type cA, B = Column.Type cB\<rparr>]
           else []) @
          (if Column.Other cA \<noteq> Column.Other cB
           then [\<lparr>Diff.Type = WrongColumnOther,
                   Target = Sprintf2 (Table.Name tA) (Column.Name cA),
                   A = Column.Other cA, B = Column.Other cB\<rparr>]
           else []))"
  by (simp add: Let_def split: option.splits)

lemma compareIndexes_single:
  "compareIndexes tA tB [(k, iA)] [] =
     (case map_of (Indexes tB) (Index.ColumnName iA) of
        None \<Rightarrow> [\<lparr>Diff.Type = MissingIndex,
                    Target = Sprintf2 (Table.Name tA) (Index.ColumnName iA),
                    A = Index.Name iA, B = ''''\<rparr>]
      | Some iB \<Rightarrow> [])"
  by (simp split: option.splits)

lemma compareConstraintTypes_single:
  "compareConstraintTypes tA tB c [(ty, cA)] [] =
     (case lookupConstraint tB c ty of
        None \<Rightarrow> [\<lparr>Diff.Type = MissingConstraint, Target = Sprintf2 (Table.Name tA) c,
                    A = Constraint.Type cA, B = ''''\<rparr>]
      | Some cB \<Rightarrow>
          (if Constraint.Other cA \<noteq> Constraint.Other cB
           then [\<lparr>Diff.Type = WrongConstraintOther,
                   Target = Sprintf3 (Table.Name tA) c (Constraint.Type cA),
                   A = Constraint.Other cA, B = Constraint.Other cB\<rparr>]
           else []))"
  by (simp split: option.splits)

lemma compareConstraints_single:
  "compareConstraints tA tB [(c, ks)] [] = compareConstraintTypes tA tB c ks []"
  by simp

lemma compareTablesLoop_single:
  "compareTablesLoop [(k, tA)] tb [] =
     (case map_of tb (Table.Name tA) of
        None \<Rightarrow> [\<lparr>Diff.Type = MissingTable, Target = Table.Name tA,
                    A = Table.Name tA, B = ''''\<rparr>]
      | Some tB \<Rightarrow>
          compareColumns tA tB (Columns tA) [] @
          compareIndexes tA tB (Indexes tA) [] @
          compareConstraints tA tB (Constraints tA) [])"
proof (cases "map_of tb (Table.Name tA)")
  case None
  then show ?thesis by simp
next
  case (Some tB)
  have "compareTablesLoop [(k, tA)] tb [] =
        compareConstraints tA tB (Constraints tA)
          (compareIndexes tA tB (Indexes tA) (compareColumns tA tB (Columns tA) []))"
    by (simp add: Some)
  also have "\<dots> = compareIndexes tA tB (Indexes tA) (compareColumns tA tB (Columns tA) []) @
                   compareConstraints tA tB (Constraints tA) []"
    by (rule compareConstraints_from_empty)
  also have "compareIndexes tA tB (Indexes tA) (compareColumns tA tB (Columns tA) []) =
             compareColumns tA tB (Columns tA) [] @ compareIndexes tA tB (Indexes tA) []"
    by (rule compareIndexes_from_empty)
  finally show ?thesis by (simp add: Some)
qed

section \<open>The kinds of record that compareTables emits\<close>

lemma kindOrder_mem:
  "MissingTable \<in> set kindOrder" "MissingColumn \<in> set kindOrder"
  "WrongColumnType \<in> set kindOrder" "WrongColumnOther \<in> set kindOrder"
  "MissingConstraint \<in> set kindOrder" "WrongConstraintOther \<in> set kindOrder"
  "MissingIndex \<in> set kindOrder"
  by (simp_all add: kindOrder_def)

lemma compareColumns_kinds:
  "d \<in> set (compareColumns tA tB cs []) \<Longrightarrow> Diff.Type d \<in> set kindOrder"
  by (subst (asm) compareColumns_concat)
     (auto simp del: compareColumns.simps simp add: compareColumns_single kindOrder_mem split: option.splits if_splits)

lemma compareIndexes_kinds:
  "d \<in> set (compareIndexes tA tB is []) \<Longrightarrow> Diff.Type d \<in> set kindOrder"
  by (subst (asm) compareIndexes_concat)
     (auto simp del: compareIndexes.simps simp add: compareIndexes_single kindOrder_mem split: option.splits if_splits)

lemma compareConstraintTypes_kinds:
  "d \<in> set (compareConstraintTypes tA tB c ks []) \<Longrightarrow> Diff.Type d \<in> set kindOrder"
  by (subst (asm) compareConstraintTypes_concat)
     (auto simp del: compareConstraintTypes.simps simp add: compareConstraintTypes_single kindOrder_mem split: option.splits if_splits)

lemma compareConstraints_kinds:
  "d \<in> set (compareConstraints tA tB cs []) \<Longrightarrow> Diff.Type d \<in> set kindOrder"
  by (subst (asm) compareConstraints_concat)
     (auto simp: compareConstraintTypes_kinds)

lemma compareTablesLoop_kinds:
  "d \<in> set (compareTablesLoop ta tb []) \<Longrightarrow> Diff.Type d \<in> set kindOrder"
  by (subst (asm) compareTablesLoop_concat)
     (auto simp del: compareTablesLoop.simps simp add: compareTablesLoop_single kindOrder_mem compareColumns_kinds
        compareIndexes_kinds compareConstraints_kinds split: option.splits)

lemma compareTables_kinds: "\<forall>d\<in>set (compareTables a b). Diff.Type d \<in> set kindOrder"
  unfolding compareTables_def by (simp add: compareTablesLoop_kinds)

text \<open>
  Claim C3. For every diff list that \<open>compareTables\<close> produces, \<open>groupByType\<close> returns
  the records of kind MISSING_TABLE, then MISSING_COLUMN, WRONG_COLUMN_TYPE,
  WRONG_COLUMN_OTHER, MISSING_CONSTRAINT, WRONG_CONSTRAINT_OTHER and MISSING_INDEX, each
  group in the order of the input (\<open>filter\<close> keeps it), and the result has the same
  records with the same multiplicities as the input. The second part rests on
  \<open>compareTables\<close> emitting these seven kinds only: the \<open>switch\<close> drops any other.
\<close>

theorem groupByType_compareTables:
  "groupByType (compareTables a b) =
     filter (\<lambda>d. Diff.Type d = MissingTable) (compareTables a b) @
     filter (\<lambda>d. Diff.Type d = MissingColumn) (compareTables a b) @
     filter (\<lambda>d. Diff.Type d = WrongColumnType) (compareTables a b) @
     filter (\<lambda>d. Diff.Type d = WrongColumnOther) (compareTables a b) @
     filter (\<lambda>d. Diff.Type d = MissingConstraint) (compareTables a b) @
     filter (\<lambda>d. Diff.Type d = WrongConstraintOther) (compareTables a b) @
     filter (\<lambda>d. Diff.Type d = MissingIndex) (compareTables a b)
   \<and> mset (groupByType (compareTables a b)) = mset (compareTables a b)"
proof
  show "groupByType (compareTables a b) =
     filter (\<lambda>d. Diff.Type d = MissingTable) (compareTables a b) @
     filter (\<lambda>d. Diff.Type d = MissingColumn) (compareTables a b) @
     filter (\<lambda>d. Diff.Type d = WrongColumnType) (compareTables a b) @
     filter (\<lambda>d. Diff.Type d = WrongColumnOther) (compareTables a b) @
     filter (\<lambda>d. Diff.Type d = MissingConstraint) (compareTables a b) @
     filter (\<lambda>d. Diff.Type d = WrongConstraintOther) (compareTables a b) @
     filter (\<lambda>d. Diff.Type d = MissingIndex) (compareTables a b)"
    by (simp add: groupByType_filters kindOrder_def)
next
  have "mset (groupByType (compareTables a b)) =
        mset (filter (\<lambda>d. Diff.Type d \<in> set kindOrder) (compareTables a b))"
    unfolding groupByType_filters by (rule mset_buckets [OF distinct_kindOrder])
  also have "filter (\<lambda>d. Diff.Type d \<in> set kindOrder) (compareTables a b) = compareTables a b"
    using compareTables_kinds [of a b] by (simp add: filter_id_conv)
  finally show "mset (groupByType (compareTables a b)) = mset (compareTables a b)" .
qed

section \<open>Where the records of one entry stand in the result\<close>

lemma concat_map_mem_split:
  "x \<in> set xs \<Longrightarrow> \<exists>pre post. concat (map f xs) = pre @ f x @ post"
proof -
  assume "x \<in> set xs"
  then obtain ys zs where "xs = ys @ x # zs" by (auto dest: split_list)
  then have "concat (map f xs) = concat (map f ys) @ f x @ concat (map f zs)" by simp
  then show ?thesis by blast
qed

lemma compareTables_table_split:
  assumes "(k, tA) \<in> set ta"
  shows "\<exists>pre post. compareTables ta tb = pre @ compareTablesLoop [(k, tA)] tb [] @ post"
  unfolding compareTables_def
  by (subst compareTablesLoop_concat) (rule concat_map_mem_split [OF assms])

lemma compareTables_columns_split:
  assumes "(k, tA) \<in> set ta" and "map_of tb (Table.Name tA) = Some tB"
    and "(kc, cA) \<in> set (Columns tA)"
  shows "\<exists>pre post. compareTables ta tb = pre @ compareColumns tA tB [(kc, cA)] [] @ post"
proof -
  obtain p1 q1 where 1: "compareTables ta tb = p1 @ compareTablesLoop [(k, tA)] tb [] @ q1"
    using compareTables_table_split [OF assms(1)] by blast
  have 2: "compareTablesLoop [(k, tA)] tb [] =
        compareColumns tA tB (Columns tA) [] @
          compareIndexes tA tB (Indexes tA) [] @
          compareConstraints tA tB (Constraints tA) []"
    by (simp only: compareTablesLoop_single assms(2) option.case)
  obtain p2 q2 where 3: "compareColumns tA tB (Columns tA) [] =
       p2 @ compareColumns tA tB [(kc, cA)] [] @ q2"
    using concat_map_mem_split [OF assms(3), of "\<lambda>x. compareColumns tA tB [x] []"]
      compareColumns_concat [of tA tB "Columns tA"] by auto
  have "compareTables ta tb = (p1 @ p2) @ compareColumns tA tB [(kc, cA)] [] @
          (q2 @ compareIndexes tA tB (Indexes tA) [] @
          compareConstraints tA tB (Constraints tA) [] @ q1)"
    by (simp only: 1 2 3 append_assoc)
  then show ?thesis by blast
qed

lemma compareTables_indexes_split:
  assumes "(k, tA) \<in> set ta" and "map_of tb (Table.Name tA) = Some tB"
    and "(ki, iA) \<in> set (Indexes tA)"
  shows "\<exists>pre post. compareTables ta tb = pre @ compareIndexes tA tB [(ki, iA)] [] @ post"
proof -
  obtain p1 q1 where 1: "compareTables ta tb = p1 @ compareTablesLoop [(k, tA)] tb [] @ q1"
    using compareTables_table_split [OF assms(1)] by blast
  have 2: "compareTablesLoop [(k, tA)] tb [] =
        compareColumns tA tB (Columns tA) [] @
          compareIndexes tA tB (Indexes tA) [] @
          compareConstraints tA tB (Constraints tA) []"
    by (simp only: compareTablesLoop_single assms(2) option.case)
  obtain p2 q2 where 3: "compareIndexes tA tB (Indexes tA) [] =
       p2 @ compareIndexes tA tB [(ki, iA)] [] @ q2"
    using concat_map_mem_split [OF assms(3), of "\<lambda>x. compareIndexes tA tB [x] []"]
      compareIndexes_concat [of tA tB "Indexes tA"] by auto
  have "compareTables ta tb = (p1 @ compareColumns tA tB (Columns tA) [] @ p2) @
          compareIndexes tA tB [(ki, iA)] [] @
          (q2 @ compareConstraints tA tB (Constraints tA) [] @ q1)"
    by (simp only: 1 2 3 append_assoc)
  then show ?thesis by blast
qed

section \<open>The column, index and constraint checks\<close>

text \<open>
  Claim C6. For a column of a table of A that the table of the same name in B lacks, the
  turn of the column loop appends exactly one record, MISSING_COLUMN with the table name
  alone as target, the column name as A and the empty string as B (so no type or other
  record comes from this column), and the record is in the result of \<open>compareTables\<close>.
\<close>

theorem missing_column_diff:
  assumes "(k, tableA) \<in> set tableMapA"
    and "map_of tableMapB (Table.Name tableA) = Some tableB"
    and "(kc, columnA) \<in> set (Columns tableA)"
    and "map_of (Columns tableB) (Column.Name columnA) = None"
  shows "compareColumns tableA tableB [(kc, columnA)] diffs =
           diffs @ [\<lparr>Diff.Type = MissingColumn, Target = Table.Name tableA,
                      A = Column.Name columnA, B = ''''\<rparr>]
         \<and> (\<exists>pre post. compareTables tableMapA tableMapB =
               pre @ [\<lparr>Diff.Type = MissingColumn, Target = Table.Name tableA,
                        A = Column.Name columnA, B = ''''\<rparr>] @ post)"
proof
  show "compareColumns tableA tableB [(kc, columnA)] diffs =
           diffs @ [\<lparr>Diff.Type = MissingColumn, Target = Table.Name tableA,
                      A = Column.Name columnA, B = ''''\<rparr>]"
    by (simp add: assms(4))
next
  have "compareColumns tableA tableB [(kc, columnA)] [] =
          [\<lparr>Diff.Type = MissingColumn, Target = Table.Name tableA,
                      A = Column.Name columnA, B = ''''\<rparr>]"
    by (simp add: assms(4))
  with compareTables_columns_split [OF assms(1-3)]
  show "\<exists>pre post. compareTables tableMapA tableMapB =
               pre @ [\<lparr>Diff.Type = MissingColumn, Target = Table.Name tableA,
                        A = Column.Name columnA, B = ''''\<rparr>] @ post"
    by simp
qed

text \<open>
  Claim C5. The type test and the other test are independent. For a column of a table of
  A that the table of the same name in B also has, with a different \<open>Type\<close> and a different
  \<open>Other\<close>, the turn of the column loop appends exactly two records to \<open>diffs\<close>, a
  WRONG_COLUMN_TYPE and then a WRONG_COLUMN_OTHER, both with target \<open>table.column\<close>, and
  the two stand side by side in the result of \<open>compareTables\<close>.
\<close>

theorem column_type_and_other_diffs:
  assumes "(k, tableA) \<in> set tableMapA"
    and "map_of tableMapB (Table.Name tableA) = Some tableB"
    and "(kc, columnA) \<in> set (Columns tableA)"
    and "map_of (Columns tableB) (Column.Name columnA) = Some columnB"
    and "Column.Type columnA \<noteq> Column.Type columnB"
    and "Column.Other columnA \<noteq> Column.Other columnB"
  shows "compareColumns tableA tableB [(kc, columnA)] diffs =
           diffs @ [\<lparr>Diff.Type = WrongColumnType,
                      Target = Sprintf2 (Table.Name tableA) (Column.Name columnA),
                      A = Column.Type columnA, B = Column.Type columnB\<rparr>,
                    \<lparr>Diff.Type = WrongColumnOther,
                      Target = Sprintf2 (Table.Name tableA) (Column.Name columnA),
                      A = Column.Other columnA, B = Column.Other columnB\<rparr>]
         \<and> (\<exists>pre post. compareTables tableMapA tableMapB =
               pre @ [\<lparr>Diff.Type = WrongColumnType,
                        Target = Sprintf2 (Table.Name tableA) (Column.Name columnA),
                        A = Column.Type columnA, B = Column.Type columnB\<rparr>,
                      \<lparr>Diff.Type = WrongColumnOther,
                        Target = Sprintf2 (Table.Name tableA) (Column.Name columnA),
                        A = Column.Other columnA, B = Column.Other columnB\<rparr>] @ post)"
proof
  show "compareColumns tableA tableB [(kc, columnA)] diffs =
           diffs @ [\<lparr>Diff.Type = WrongColumnType,
                      Target = Sprintf2 (Table.Name tableA) (Column.Name columnA),
                      A = Column.Type columnA, B = Column.Type columnB\<rparr>,
                    \<lparr>Diff.Type = WrongColumnOther,
                      Target = Sprintf2 (Table.Name tableA) (Column.Name columnA),
                      A = Column.Other columnA, B = Column.Other columnB\<rparr>]"
    by (simp add: assms(4-6))
next
  have "compareColumns tableA tableB [(kc, columnA)] [] =
          [\<lparr>Diff.Type = WrongColumnType,
                      Target = Sprintf2 (Table.Name tableA) (Column.Name columnA),
                      A = Column.Type columnA, B = Column.Type columnB\<rparr>,
                    \<lparr>Diff.Type = WrongColumnOther,
                      Target = Sprintf2 (Table.Name tableA) (Column.Name columnA),
                      A = Column.Other columnA, B = Column.Other columnB\<rparr>]"
    by (simp add: assms(4-6))
  with compareTables_columns_split [OF assms(1-3)]
  show "\<exists>pre post. compareTables tableMapA tableMapB =
               pre @ [\<lparr>Diff.Type = WrongColumnType,
                        Target = Sprintf2 (Table.Name tableA) (Column.Name columnA),
                        A = Column.Type columnA, B = Column.Type columnB\<rparr>,
                      \<lparr>Diff.Type = WrongColumnOther,
                        Target = Sprintf2 (Table.Name tableA) (Column.Name columnA),
                        A = Column.Other columnA, B = Column.Other columnB\<rparr>] @ post"
    by simp
qed

text \<open>
  Claim C7. For an index of a table of A: when the table of the same name in B has no
  index under that column, the turn of the index loop appends exactly MISSING_INDEX with
  target \<open>table.column\<close>, the index name as A and the empty string as B, and the record is
  in the result of \<open>compareTables\<close>; when B has any index under that column, whatever its
  name, the turn appends nothing.
\<close>

theorem missing_index_diff:
  assumes "(k, tableA) \<in> set tableMapA"
    and "map_of tableMapB (Table.Name tableA) = Some tableB"
    and "(ki, indexA) \<in> set (Indexes tableA)"
  shows "(map_of (Indexes tableB) (Index.ColumnName indexA) = None \<longrightarrow>
            compareIndexes tableA tableB [(ki, indexA)] diffs =
              diffs @ [\<lparr>Diff.Type = MissingIndex,
                         Target = Sprintf2 (Table.Name tableA) (Index.ColumnName indexA),
                         A = Index.Name indexA, B = ''''\<rparr>]
            \<and> (\<exists>pre post. compareTables tableMapA tableMapB =
                 pre @ [\<lparr>Diff.Type = MissingIndex,
                          Target = Sprintf2 (Table.Name tableA) (Index.ColumnName indexA),
                          A = Index.Name indexA, B = ''''\<rparr>] @ post))
         \<and> (\<forall>indexB. map_of (Indexes tableB) (Index.ColumnName indexA) = Some indexB \<longrightarrow>
               compareIndexes tableA tableB [(ki, indexA)] diffs = diffs)"
proof (intro conjI impI allI)
  assume "map_of (Indexes tableB) (Index.ColumnName indexA) = None"
  then show "compareIndexes tableA tableB [(ki, indexA)] diffs =
              diffs @ [\<lparr>Diff.Type = MissingIndex,
                         Target = Sprintf2 (Table.Name tableA) (Index.ColumnName indexA),
                         A = Index.Name indexA, B = ''''\<rparr>]"
    by simp
next
  assume "map_of (Indexes tableB) (Index.ColumnName indexA) = None"
  then have "compareIndexes tableA tableB [(ki, indexA)] [] =
              [\<lparr>Diff.Type = MissingIndex,
                         Target = Sprintf2 (Table.Name tableA) (Index.ColumnName indexA),
                         A = Index.Name indexA, B = ''''\<rparr>]"
    by simp
  with compareTables_indexes_split [OF assms(1-3)]
  show "\<exists>pre post. compareTables tableMapA tableMapB =
                 pre @ [\<lparr>Diff.Type = MissingIndex,
                          Target = Sprintf2 (Table.Name tableA) (Index.ColumnName indexA),
                          A = Index.Name indexA, B = ''''\<rparr>] @ post"
    by simp
next
  fix indexB
  assume "map_of (Indexes tableB) (Index.ColumnName indexA) = Some indexB"
  then show "compareIndexes tableA tableB [(ki, indexA)] diffs = diffs"
    by simp
qed

section \<open>The examples, parsed and compared\<close>

lemmas example_defs = exampleSchemaA_def exampleUsersA_def exampleSchemaB_def exampleUsersB_def
  exampleSchemaB'_def

lemma parse_exampleTextA: "parseTables exampleTextA = Inr exampleSchemaA"
  by code_simp

lemma parse_exampleTextB: "parseTables exampleTextB = Inr exampleSchemaB"
  by code_simp

theorem missing_column_diff_witness:
  "(''users'', exampleUsersA) \<in> set exampleSchemaA
   \<and> map_of exampleSchemaB (Table.Name exampleUsersA) = Some exampleUsersB
   \<and> (''name'', \<lparr>Column.Name = ''name'', Column.Type = ''VARCHAR(50)'',
                   Column.Other = ''NOT NULL''\<rparr>) \<in> set (Columns exampleUsersA)
   \<and> map_of (Columns exampleUsersB) ''name'' = None
   \<and> compareColumns exampleUsersA exampleUsersB
        [(''name'', \<lparr>Column.Name = ''name'', Column.Type = ''VARCHAR(50)'',
                     Column.Other = ''NOT NULL''\<rparr>)] []
       = [\<lparr>Diff.Type = MissingColumn, Target = ''users'', A = ''name'', B = ''''\<rparr>]
   \<and> (\<exists>pre post. compareTables exampleSchemaA exampleSchemaB =
         pre @ [\<lparr>Diff.Type = MissingColumn, Target = ''users'', A = ''name'', B = ''''\<rparr>] @ post)"
proof -
  have h1: "(''users'', exampleUsersA) \<in> set exampleSchemaA"
    by (simp add: exampleSchemaA_def)
  have h2: "map_of exampleSchemaB (Table.Name exampleUsersA) = Some exampleUsersB"
    by (simp add: exampleSchemaB_def exampleUsersA_def)
  have h3: "(''name'', \<lparr>Column.Name = ''name'', Column.Type = ''VARCHAR(50)'',
                   Column.Other = ''NOT NULL''\<rparr>) \<in> set (Columns exampleUsersA)"
    by (simp add: exampleUsersA_def)
  have h4: "map_of (Columns exampleUsersB)
              (Column.Name \<lparr>Column.Name = ''name'', Column.Type = ''VARCHAR(50)'',
                   Column.Other = ''NOT NULL''\<rparr>) = None"
    by (simp add: exampleUsersB_def)
  have n: "Table.Name exampleUsersA = ''users''"
    by (simp add: exampleUsersA_def)
  show ?thesis
    using h1 h2 h3 h4 missing_column_diff [OF h1 h2 h3 h4, of "[]"]
    by (simp add: n)
qed

theorem column_type_and_other_diffs_witness:
  "(''users'', exampleUsersA) \<in> set exampleSchemaA
   \<and> map_of exampleSchemaB (Table.Name exampleUsersA) = Some exampleUsersB
   \<and> (''id'', \<lparr>Column.Name = ''id'', Column.Type = ''INT,'', Column.Other = ''''\<rparr>)
        \<in> set (Columns exampleUsersA)
   \<and> map_of (Columns exampleUsersB) ''id''
        = Some \<lparr>Column.Name = ''id'', Column.Type = ''INT'', Column.Other = ''NOT NULL''\<rparr>
   \<and> ''INT,'' \<noteq> ''INT'' \<and> '''' \<noteq> ''NOT NULL''
   \<and> compareColumns exampleUsersA exampleUsersB
        [(''id'', \<lparr>Column.Name = ''id'', Column.Type = ''INT,'', Column.Other = ''''\<rparr>)] []
       = [\<lparr>Diff.Type = WrongColumnType, Target = ''users.id'', A = ''INT,'', B = ''INT''\<rparr>,
          \<lparr>Diff.Type = WrongColumnOther, Target = ''users.id'', A = '''', B = ''NOT NULL''\<rparr>]
   \<and> (\<exists>pre post. compareTables exampleSchemaA exampleSchemaB =
         pre @ [\<lparr>Diff.Type = WrongColumnType, Target = ''users.id'', A = ''INT,'', B = ''INT''\<rparr>,
                \<lparr>Diff.Type = WrongColumnOther, Target = ''users.id'', A = '''',
                  B = ''NOT NULL''\<rparr>] @ post)"
proof -
  have h1: "(''users'', exampleUsersA) \<in> set exampleSchemaA"
    by (simp add: exampleSchemaA_def)
  have h2: "map_of exampleSchemaB (Table.Name exampleUsersA) = Some exampleUsersB"
    by (simp add: exampleSchemaB_def exampleUsersA_def)
  have h3: "(''id'', \<lparr>Column.Name = ''id'', Column.Type = ''INT,'', Column.Other = ''''\<rparr>)
        \<in> set (Columns exampleUsersA)"
    by (simp add: exampleUsersA_def)
  have h4: "map_of (Columns exampleUsersB)
              (Column.Name \<lparr>Column.Name = ''id'', Column.Type = ''INT,'', Column.Other = ''''\<rparr>)
        = Some \<lparr>Column.Name = ''id'', Column.Type = ''INT'', Column.Other = ''NOT NULL''\<rparr>"
    by (simp add: exampleUsersB_def)
  have h5: "Column.Type \<lparr>Column.Name = ''id'', Column.Type = ''INT,'', Column.Other = ''''\<rparr>
      \<noteq> Column.Type \<lparr>Column.Name = ''id'', Column.Type = ''INT'', Column.Other = ''NOT NULL''\<rparr>"
    by simp
  have h6: "Column.Other \<lparr>Column.Name = ''id'', Column.Type = ''INT,'', Column.Other = ''''\<rparr>
      \<noteq> Column.Other \<lparr>Column.Name = ''id'', Column.Type = ''INT'', Column.Other = ''NOT NULL''\<rparr>"
    by simp
  have n: "Table.Name exampleUsersA = ''users''"
    by (simp add: exampleUsersA_def)
  show ?thesis
    using h1 h2 h3 h4 column_type_and_other_diffs [OF h1 h2 h3 h4 h5 h6, of "[]"]
    by (simp add: n Sprintf2_def)
qed

theorem missing_index_diff_witness:
  "(''users'', exampleUsersA) \<in> set exampleSchemaA
   \<and> map_of exampleSchemaB (Table.Name exampleUsersA) = Some exampleUsersB
   \<and> (''name'', \<lparr>Index.Name = ''idx_name'', Index.ColumnName = ''name''\<rparr>)
        \<in> set (Indexes exampleUsersA)
   \<and> map_of (Indexes exampleUsersB) ''name'' = None
   \<and> compareIndexes exampleUsersA exampleUsersB
        [(''name'', \<lparr>Index.Name = ''idx_name'', Index.ColumnName = ''name''\<rparr>)] []
       = [\<lparr>Diff.Type = MissingIndex, Target = ''users.name'', A = ''idx_name'', B = ''''\<rparr>]
   \<and> (\<exists>pre post. compareTables exampleSchemaA exampleSchemaB =
         pre @ [\<lparr>Diff.Type = MissingIndex, Target = ''users.name'', A = ''idx_name'',
                  B = ''''\<rparr>] @ post)
   \<and> (''org_id'', \<lparr>Index.Name = ''idx_org'', Index.ColumnName = ''org_id''\<rparr>)
        \<in> set (Indexes exampleUsersA)
   \<and> map_of (Indexes exampleUsersB) ''org_id''
        = Some \<lparr>Index.Name = ''ix_org'', Index.ColumnName = ''org_id''\<rparr>
   \<and> compareIndexes exampleUsersA exampleUsersB
        [(''org_id'', \<lparr>Index.Name = ''idx_org'', Index.ColumnName = ''org_id''\<rparr>)] [] = []"
proof -
  have h1: "(''users'', exampleUsersA) \<in> set exampleSchemaA"
    by (simp add: exampleSchemaA_def)
  have h2: "map_of exampleSchemaB (Table.Name exampleUsersA) = Some exampleUsersB"
    by (simp add: exampleSchemaB_def exampleUsersA_def)
  have h3: "(''name'', \<lparr>Index.Name = ''idx_name'', Index.ColumnName = ''name''\<rparr>)
        \<in> set (Indexes exampleUsersA)"
    by (simp add: exampleUsersA_def)
  have h3': "(''org_id'', \<lparr>Index.Name = ''idx_org'', Index.ColumnName = ''org_id''\<rparr>)
        \<in> set (Indexes exampleUsersA)"
    by (simp add: exampleUsersA_def)
  have h4: "map_of (Indexes exampleUsersB) ''name'' = None"
    by (simp add: exampleUsersB_def)
  have h4': "map_of (Indexes exampleUsersB) ''org_id''
        = Some \<lparr>Index.Name = ''ix_org'', Index.ColumnName = ''org_id''\<rparr>"
    by (simp add: exampleUsersB_def)
  have n: "Table.Name exampleUsersA = ''users''"
    by (simp add: exampleUsersA_def)
  show ?thesis
    using h1 h2 h3 h3' h4 h4' missing_index_diff [OF h1 h2 h3, of "[]"]
      missing_index_diff [OF h1 h2 h3', of "[]"]
    by (simp add: n Sprintf2_def)
qed

section \<open>A schema compared with itself\<close>

lemma compareColumns_self:
  assumes "keyedColumns (Columns t)"
  shows "compareColumns t t (Columns t) [] = []"
proof -
  have "compareColumns t t [x] [] = []" if "x \<in> set (Columns t)" for x
  proof -
    obtain k c where x: "x = (k, c)" by (cases x)
    from assms that have "map_of (Columns t) (Column.Name c) = Some c"
      unfolding x keyedColumns_def by auto
    then show ?thesis unfolding x by simp
  qed
  then show ?thesis
    by (subst compareColumns_concat) simp
qed

lemma compareIndexes_self:
  assumes "keyedIndexes (Indexes t)"
  shows "compareIndexes t t (Indexes t) [] = []"
proof -
  have "compareIndexes t t [x] [] = []" if "x \<in> set (Indexes t)" for x
  proof -
    obtain k i where x: "x = (k, i)" by (cases x)
    from assms that have "map_of (Indexes t) (Index.ColumnName i) = Some i"
      unfolding x keyedIndexes_def by auto
    then show ?thesis unfolding x by simp
  qed
  then show ?thesis
    by (subst compareIndexes_concat) simp
qed

lemma compareConstraints_self:
  assumes "distinctConstraints (Constraints t)"
  shows "compareConstraints t t (Constraints t) [] = []"
proof -
  have "compareConstraints t t [x] [] = []" if "x \<in> set (Constraints t)" for x
  proof -
    obtain c m where x: "x = (c, m)" by (cases x)
    from assms that have m: "map_of (Constraints t) c = Some m" and dm: "distinct (map fst m)"
      unfolding x distinctConstraints_def by auto
    have "compareConstraintTypes t t c [y] [] = []" if "y \<in> set m" for y
    proof -
      obtain ty cA where y: "y = (ty, cA)" by (cases y)
      from dm that have "map_of m ty = Some cA" unfolding y by simp
      then have "lookupConstraint t c ty = Some cA" by (simp add: lookupConstraint_def m)
      then show ?thesis unfolding y by simp
    qed
    then have "compareConstraintTypes t t c m [] = []"
      by (subst compareConstraintTypes_concat) simp
    then show ?thesis unfolding x by simp
  qed
  then show ?thesis
    by (subst compareConstraints_concat) simp
qed

text \<open>
  Claim C2. Comparing a schema with itself gives the empty diff list. A schema is a map
  from table name to table whose tables map column names to columns and indexed column
  names to indexes (\<open>wfSchema\<close>): the loops look B up under the \<open>Name\<close> and \<open>ColumnName\<close>
  fields of the values of A, not under the keys of A. Every schema that \<open>parseTables\<close>
  returns is one (\<open>parseTables_wf\<close>), in whatever order its maps are visited.
\<close>

theorem compareTables_self:
  assumes "wfSchema tableMapA"
  shows "compareTables tableMapA tableMapA = []"
proof -
  have "compareTablesLoop [x] tableMapA [] = []" if "x \<in> set tableMapA" for x
  proof -
    obtain k t where x: "x = (k, t)" by (cases x)
    from assms that have look: "map_of tableMapA (Table.Name t) = Some t" and wf: "wfTable t"
      unfolding x wfSchema_def by auto
    show ?thesis
      unfolding x
      using wf
      by (simp only: compareTablesLoop_single look option.case)
         (simp add: wfTable_def compareColumns_self compareIndexes_self compareConstraints_self)
  qed
  then show ?thesis
    unfolding compareTables_def by (subst compareTablesLoop_concat) simp
qed

text \<open>
  The keys matter: the loop looks B up under \<open>tableA.Name\<close>. A map that holds a table under
  a key other than its name is no schema (the parser never builds one), and compared with
  itself it reports that table as missing.
\<close>

lemma misnamed_key_reports_missing:
  "compareTables [(''x'', zeroTable)] [(''x'', zeroTable)] =
     [\<lparr>Diff.Type = MissingTable, Target = '''', A = '''', B = ''''\<rparr>]"
  by (simp add: compareTables_def zeroTable_def)

theorem compareTables_self_witness:
  "wfSchema exampleSchemaA \<and> compareTables exampleSchemaA exampleSchemaA = []"
proof -
  have h: "wfSchema exampleSchemaA"
    by (simp add: example_defs wfSchema_def wfTable_def keyedColumns_def keyedIndexes_def
        distinctConstraints_def)
  show ?thesis using h compareTables_self [OF h] by simp
qed

section \<open>Direction of the comparison\<close>

lemma compareColumns_origin:
  assumes "d \<in> set (compareColumns tA tB cs [])"
  shows "\<exists>(kc, cA) \<in> set cs.
         (Diff.Type d = MissingColumn \<and> Target d = Table.Name tA \<and> A d = Column.Name cA)
       \<or> (Diff.Type d = WrongColumnType
            \<and> Target d = Sprintf2 (Table.Name tA) (Column.Name cA) \<and> A d = Column.Type cA)
       \<or> (Diff.Type d = WrongColumnOther
            \<and> Target d = Sprintf2 (Table.Name tA) (Column.Name cA) \<and> A d = Column.Other cA)"
proof -
  from assms obtain x where x: "x \<in> set cs" and d: "d \<in> set (compareColumns tA tB [x] [])"
    by (subst (asm) compareColumns_concat) auto
  obtain kc cA where xe: "x = (kc, cA)" by (cases x)
  from d have "(Diff.Type d = MissingColumn \<and> Target d = Table.Name tA \<and> A d = Column.Name cA)
       \<or> (Diff.Type d = WrongColumnType
            \<and> Target d = Sprintf2 (Table.Name tA) (Column.Name cA) \<and> A d = Column.Type cA)
       \<or> (Diff.Type d = WrongColumnOther
            \<and> Target d = Sprintf2 (Table.Name tA) (Column.Name cA) \<and> A d = Column.Other cA)"
    unfolding xe compareColumns_single by (auto split: option.splits if_splits)
  with x show ?thesis unfolding xe by blast
qed

lemma compareIndexes_origin:
  assumes "d \<in> set (compareIndexes tA tB is [])"
  shows "\<exists>(ki, iA) \<in> set is.
         Diff.Type d = MissingIndex
         \<and> Target d = Sprintf2 (Table.Name tA) (Index.ColumnName iA) \<and> A d = Index.Name iA"
proof -
  from assms obtain x where x: "x \<in> set is" and d: "d \<in> set (compareIndexes tA tB [x] [])"
    by (subst (asm) compareIndexes_concat) auto
  obtain ki iA where xe: "x = (ki, iA)" by (cases x)
  from d have "Diff.Type d = MissingIndex
         \<and> Target d = Sprintf2 (Table.Name tA) (Index.ColumnName iA) \<and> A d = Index.Name iA"
    unfolding xe compareIndexes_single by (auto split: option.splits)
  with x show ?thesis unfolding xe by blast
qed

lemma compareConstraintTypes_origin:
  assumes "d \<in> set (compareConstraintTypes tA tB c m [])"
  shows "\<exists>(ty, cA) \<in> set m.
         (Diff.Type d = MissingConstraint
            \<and> Target d = Sprintf2 (Table.Name tA) c \<and> A d = Constraint.Type cA)
       \<or> (Diff.Type d = WrongConstraintOther
            \<and> Target d = Sprintf3 (Table.Name tA) c (Constraint.Type cA)
            \<and> A d = Constraint.Other cA)"
proof -
  from assms obtain x where x: "x \<in> set m"
    and d: "d \<in> set (compareConstraintTypes tA tB c [x] [])"
    by (subst (asm) compareConstraintTypes_concat) auto
  obtain ty cA where xe: "x = (ty, cA)" by (cases x)
  from d have "(Diff.Type d = MissingConstraint
            \<and> Target d = Sprintf2 (Table.Name tA) c \<and> A d = Constraint.Type cA)
       \<or> (Diff.Type d = WrongConstraintOther
            \<and> Target d = Sprintf3 (Table.Name tA) c (Constraint.Type cA)
            \<and> A d = Constraint.Other cA)"
    unfolding xe compareConstraintTypes_single by (auto split: option.splits if_splits)
  with x show ?thesis unfolding xe by blast
qed

lemma compareConstraints_origin:
  assumes "d \<in> set (compareConstraints tA tB cs [])"
  shows "\<exists>(c, m) \<in> set cs. \<exists>(ty, cA) \<in> set m.
         (Diff.Type d = MissingConstraint
            \<and> Target d = Sprintf2 (Table.Name tA) c \<and> A d = Constraint.Type cA)
       \<or> (Diff.Type d = WrongConstraintOther
            \<and> Target d = Sprintf3 (Table.Name tA) c (Constraint.Type cA)
            \<and> A d = Constraint.Other cA)"
proof -
  from assms obtain x where x: "x \<in> set cs" and d: "d \<in> set (compareConstraints tA tB [x] [])"
    by (subst (asm) compareConstraints_concat) auto
  obtain c m where xe: "x = (c, m)" by (cases x)
  from d have "d \<in> set (compareConstraintTypes tA tB c m [])"
    unfolding xe by simp
  from compareConstraintTypes_origin [OF this] x show ?thesis
    unfolding xe by blast
qed

lemma compareTablesLoop_origin:
  assumes "d \<in> set (compareTablesLoop ta tb [])"
  shows "aboutSchema ta d"
proof -
  from assms obtain x where x: "x \<in> set ta" and d: "d \<in> set (compareTablesLoop [x] tb [])"
    by (subst (asm) compareTablesLoop_concat) auto
  obtain k tA where xe: "x = (k, tA)" by (cases x)
  have "aboutTable tA d"
  proof (cases "map_of tb (Table.Name tA)")
    case None
    with d show ?thesis
      unfolding xe compareTablesLoop_single by (simp add: aboutTable_def)
  next
    case (Some tB)
    with d consider "d \<in> set (compareColumns tA tB (Columns tA) [])"
      | "d \<in> set (compareIndexes tA tB (Indexes tA) [])"
      | "d \<in> set (compareConstraints tA tB (Constraints tA) [])"
      unfolding xe compareTablesLoop_single by auto
    then show ?thesis
    proof cases
      case 1
      from compareColumns_origin [OF this] show ?thesis
        unfolding aboutTable_def by blast
    next
      case 2
      from compareIndexes_origin [OF this] show ?thesis
        unfolding aboutTable_def by blast
    next
      case 3
      from compareConstraints_origin [OF this] show ?thesis
        unfolding aboutTable_def by blast
    qed
  qed
  with x show ?thesis unfolding xe aboutSchema_def by blast
qed

lemma concat_map_cong:
  "(\<And>x. x \<in> set xs \<Longrightarrow> f x = g x) \<Longrightarrow> concat (map f xs) = concat (map g xs)"
  by (induction xs) auto

lemma compareTablesLoop_single_same:
  assumes "sameOn ta tb tb'" and "(k, tA) \<in> set ta"
  shows "compareTablesLoop [(k, tA)] tb [] = compareTablesLoop [(k, tA)] tb' []"
proof (cases "map_of tb (Table.Name tA)")
  case None
  with assms have "map_of tb' (Table.Name tA) = None"
    unfolding sameOn_def by fastforce
  with None show ?thesis by (simp only: compareTablesLoop_single option.case)
next
  case (Some tB)
  with assms obtain tB' where tB': "map_of tb' (Table.Name tA) = Some tB'"
    and same: "sameForTable tA tB tB'"
    unfolding sameOn_def by (fastforce split: option.splits)
  have cols: "compareColumns tA tB (Columns tA) [] = compareColumns tA tB' (Columns tA) []"
  proof -
    have "compareColumns tA tB [x] [] = compareColumns tA tB' [x] []"
      if "x \<in> set (Columns tA)" for x
    proof -
      obtain kc cA where xe: "x = (kc, cA)" by (cases x)
      from same that
      have "map_of (Columns tB) (Column.Name cA) = map_of (Columns tB') (Column.Name cA)"
        unfolding xe sameForTable_def by blast
      then show ?thesis unfolding xe by (simp only: compareColumns_single)
    qed
    then have "concat (map (\<lambda>x. compareColumns tA tB [x] []) (Columns tA)) =
               concat (map (\<lambda>x. compareColumns tA tB' [x] []) (Columns tA))"
      by (rule concat_map_cong)
    then show ?thesis
      using compareColumns_concat [of tA tB "Columns tA"]
        compareColumns_concat [of tA tB' "Columns tA"] by simp
  qed
  have idxs: "compareIndexes tA tB (Indexes tA) [] = compareIndexes tA tB' (Indexes tA) []"
  proof -
    have "compareIndexes tA tB [x] [] = compareIndexes tA tB' [x] []"
      if "x \<in> set (Indexes tA)" for x
    proof -
      obtain ki iA where xe: "x = (ki, iA)" by (cases x)
      from same that
      have "(map_of (Indexes tB) (Index.ColumnName iA) = None)
          = (map_of (Indexes tB') (Index.ColumnName iA) = None)"
        unfolding xe sameForTable_def by fast
      then show ?thesis unfolding xe
        by (auto simp only: compareIndexes_single split: option.splits)
    qed
    then have "concat (map (\<lambda>x. compareIndexes tA tB [x] []) (Indexes tA)) =
               concat (map (\<lambda>x. compareIndexes tA tB' [x] []) (Indexes tA))"
      by (rule concat_map_cong)
    then show ?thesis
      using compareIndexes_concat [of tA tB "Indexes tA"]
        compareIndexes_concat [of tA tB' "Indexes tA"] by simp
  qed
  have cons: "compareConstraints tA tB (Constraints tA) [] =
              compareConstraints tA tB' (Constraints tA) []"
  proof -
    have "compareConstraints tA tB [x] [] = compareConstraints tA tB' [x] []"
      if "x \<in> set (Constraints tA)" for x
    proof -
      obtain c m where xe: "x = (c, m)" by (cases x)
      have "compareConstraintTypes tA tB c [y] [] = compareConstraintTypes tA tB' c [y] []"
        if "y \<in> set m" for y
      proof -
        obtain ty cA where ye: "y = (ty, cA)" by (cases y)
        from same \<open>x \<in> set (Constraints tA)\<close> that
        have "lookupConstraint tB c ty = lookupConstraint tB' c ty"
          unfolding xe ye sameForTable_def by blast
        then show ?thesis unfolding ye by (simp only: compareConstraintTypes_single)
      qed
      then have "concat (map (\<lambda>y. compareConstraintTypes tA tB c [y] []) m) =
                 concat (map (\<lambda>y. compareConstraintTypes tA tB' c [y] []) m)"
        by (rule concat_map_cong)
      then have "compareConstraintTypes tA tB c m [] = compareConstraintTypes tA tB' c m []"
        using compareConstraintTypes_concat [of tA tB c m]
          compareConstraintTypes_concat [of tA tB' c m] by simp
      then show ?thesis unfolding xe by simp
    qed
    then have "concat (map (\<lambda>x. compareConstraints tA tB [x] []) (Constraints tA)) =
               concat (map (\<lambda>x. compareConstraints tA tB' [x] []) (Constraints tA))"
      by (rule concat_map_cong)
    then show ?thesis
      using compareConstraints_concat [of tA tB "Constraints tA"]
        compareConstraints_concat [of tA tB' "Constraints tA"] by simp
  qed
  show ?thesis
    by (simp only: compareTablesLoop_single Some tB' option.case cols idxs cons)
qed

text \<open>
  Claim C1. \<open>compareTables\<close> is directional. First, every record it emits is about an
  element of A: a table of A (MISSING_TABLE), a column of a table of A (MISSING_COLUMN,
  WRONG_COLUMN_TYPE, WRONG_COLUMN_OTHER), an index of a table of A (MISSING_INDEX) or a
  constraint of a table of A (MISSING_CONSTRAINT, WRONG_CONSTRAINT_OTHER), with the target
  and the A field built from that element. Second, what B holds beyond A has no effect:
  two schemas B and B' that answer alike every lookup made for an element of A give the
  same diff list, so a table, column, index or constraint that only B has produces no
  record and changes none.
\<close>

theorem compareTables_directional:
  "(\<forall>d \<in> set (compareTables tableMapA tableMapB). aboutSchema tableMapA d)
   \<and> (sameOn tableMapA tableMapB tableMapB' \<longrightarrow>
        compareTables tableMapA tableMapB = compareTables tableMapA tableMapB')"
proof (intro conjI ballI impI)
  fix d
  assume "d \<in> set (compareTables tableMapA tableMapB)"
  then show "aboutSchema tableMapA d"
    unfolding compareTables_def by (rule compareTablesLoop_origin)
next
  assume same: "sameOn tableMapA tableMapB tableMapB'"
  have "compareTablesLoop [x] tableMapB [] = compareTablesLoop [x] tableMapB' []"
    if "x \<in> set tableMapA" for x
    using compareTablesLoop_single_same [OF same] that by (cases x) blast
  then have "concat (map (\<lambda>x. compareTablesLoop [x] tableMapB []) tableMapA) =
             concat (map (\<lambda>x. compareTablesLoop [x] tableMapB' []) tableMapA)"
    by (rule concat_map_cong)
  then show "compareTables tableMapA tableMapB = compareTables tableMapA tableMapB'"
    unfolding compareTables_def
    using compareTablesLoop_concat [of tableMapA tableMapB]
      compareTablesLoop_concat [of tableMapA tableMapB'] by simp
qed

theorem compareTables_directional_witness:
  "list_all (aboutSchema exampleSchemaA) (compareTables exampleSchemaA exampleSchemaB)
   \<and> sameOn exampleSchemaA exampleSchemaB exampleSchemaB'
   \<and> compareTables exampleSchemaA exampleSchemaB = compareTables exampleSchemaA exampleSchemaB'"
proof -
  have h: "sameOn exampleSchemaA exampleSchemaB exampleSchemaB'"
    by (simp add: example_defs sameOn_def sameForTable_def lookupConstraint_def)
  show ?thesis
    using h compareTables_directional [of exampleSchemaA exampleSchemaB exampleSchemaB']
    by (simp add: list_all_iff)
qed

section \<open>The parser keeps schemas well formed\<close>

lemma set_update_cases:
  "(k', v') \<in> set (AList.update k v al) \<Longrightarrow> (k', v') = (k, v) \<or> (k', v') \<in> set al"
  by (induction al) (auto split: if_splits)

lemma keyedColumns_update:
  "keyedColumns cs \<Longrightarrow> Column.Name c = k \<Longrightarrow> keyedColumns (AList.update k c cs)"
  unfolding keyedColumns_def by (auto simp: distinct_update dest: set_update_cases)

lemma keyedIndexes_update:
  "keyedIndexes is \<Longrightarrow> Index.ColumnName i = k \<Longrightarrow> keyedIndexes (AList.update k i is)"
  unfolding keyedIndexes_def by (auto simp: distinct_update dest: set_update_cases)

lemma distinctConstraints_put:
  assumes "distinctConstraints cs"
  shows "distinctConstraints (putConstraint c ty x cs)"
proof -
  define inner where "inner = (case map_of cs c of None \<Rightarrow> [] | Some m \<Rightarrow> m)"
  have inner: "distinct (map fst inner)"
  proof (cases "map_of cs c")
    case None
    then show ?thesis by (simp add: inner_def)
  next
    case (Some m)
    then have "(c, m) \<in> set cs" by (rule map_of_SomeD)
    with assms Some show ?thesis
      unfolding distinctConstraints_def inner_def by auto
  qed
  have put: "putConstraint c ty x cs = AList.update c (AList.update ty x inner) cs"
    by (simp add: putConstraint_def inner_def)
  show ?thesis
    unfolding put distinctConstraints_def
    using assms inner
    by (auto simp: distinctConstraints_def distinct_update dest!: set_update_cases)
qed

lemma wfSchema_update:
  "wfSchema s \<Longrightarrow> wfTable t \<Longrightarrow> wfSchema (AList.update (Table.Name t) t s)"
  unfolding wfSchema_def by (auto simp: distinct_update dest!: set_update_cases)

lemma wfTable_empty:
  "wfTable \<lparr>Table.Name = n, Columns = [], Indexes = [], Constraints = []\<rparr>"
  by (simp add: wfTable_def keyedColumns_def keyedIndexes_def distinctConstraints_def)

lemma wfState_init: "wfState initState"
  by (simp add: wfState_def initState_def zeroTable_def wfTable_empty wfSchema_def)

lemma andThen_Inr:
  "andThen m f = Inr y \<longleftrightarrow> (\<exists>x. m = Inr x \<and> f x = Inr y)"
  by (cases m) (simp_all add: andThen_def)

lemma openTable_wf:
  "openTable st infos = Inr st' \<Longrightarrow> wfState st \<Longrightarrow> wfState st'"
  by (auto simp: openTable_def andThen_Inr wfState_def wfTable_empty wfSchema_update Let_def)

lemma columnDefinition_wf:
  "columnDefinition st infos = Inr st' \<Longrightarrow> wfState st \<Longrightarrow> wfState st'"
  by (auto simp: columnDefinition_def andThen_Inr wfState_def wfTable_def keyedColumns_update
        Let_def)

lemma indexDefinition_wf:
  "indexDefinition st infos = Inr st' \<Longrightarrow> wfState st \<Longrightarrow> wfState st'"
  by (auto simp: indexDefinition_def andThen_Inr wfState_def wfTable_def keyedIndexes_update
        Let_def split: if_splits)

lemma storeConstraint_wf:
  "wfState st \<Longrightarrow> wfState (storeConstraint st c)"
  by (simp add: storeConstraint_def wfState_def wfTable_def distinctConstraints_put)

lemma constraintDefinition_wf:
  "constraintDefinition st infos = Inr st' \<Longrightarrow> wfState st \<Longrightarrow> wfState st'"
  by (auto simp: constraintDefinition_def andThen_Inr storeConstraint_wf split: if_splits)

lemma keyDefinition_wf:
  "keyDefinition st infos = Inr st' \<Longrightarrow> wfState st \<Longrightarrow> wfState st'"
  by (auto simp: keyDefinition_def andThen_Inr storeConstraint_wf split: if_splits)

lemma parseLine_wf:
  assumes "parseLine st l = Inr st'" and "wfState st"
  shows "wfState st'"
  using assms
  unfolding parseLine_def Let_def
  by (auto simp: andThen_Inr split: if_splits
      dest: openTable_wf columnDefinition_wf indexDefinition_wf constraintDefinition_wf
        keyDefinition_wf)

lemma parseLoop_wf:
  "parseLoop st ls = Inr st' \<Longrightarrow> wfState st \<Longrightarrow> wfState st'"
  by (induction ls arbitrary: st) (auto split: sum.splits dest: parseLine_wf)

lemma parseTables_wf:
  assumes "parseTables data = Inr schema"
  shows "wfSchema schema"
proof -
  from assms obtain st where loop: "parseLoop initState (Split data CHR ''\<newline>'') = Inr st"
    and schema: "schema = AList.update (Table.Name (table st)) (table st) (tables st)"
    unfolding parseTables_def by (auto split: sum.splits)
  from parseLoop_wf [OF loop wfState_init] have "wfState st" .
  then show ?thesis
    unfolding schema wfState_def by (simp add: wfSchema_update)
qed

section \<open>Constraint, key and column lines\<close>

lemma Split_nonempty: "Split s sep \<noteq> []"
  by (induction s) (auto split: list.splits)

lemma isKeyword_iff:
  "isKeyword str \<longleftrightarrow> str \<in> {''PRIMARY'', ''KEY'', ''CONSTRAINT'', ''UNIQUE'', '''', ''--''}"
  by (auto simp: isKeyword_def keywordsList_def)

lemma lookupConstraint_put_same:
  "lookupConstraint (t\<lparr>Constraints := putConstraint c ty x (Constraints t)\<rparr>) c ty = Some x"
  by (simp add: lookupConstraint_def putConstraint_def update_conv')

lemma lookupConstraint_put_other:
  "(c', ty') \<noteq> (c, ty) \<Longrightarrow>
   lookupConstraint (t\<lparr>Constraints := putConstraint c ty x (Constraints t)\<rparr>) c' ty' =
   lookupConstraint t c' ty'"
  by (auto simp: lookupConstraint_def putConstraint_def update_conv' split: option.splits)

lemma parseLine_constraint_line:
  assumes "analyzingTable st"
    and "\<not> (1 < length (infosOf l) \<and> infosOf l ! 1 = ''ENGINE=InnoDB'')"
    and "infosOf l ! 0 = ''CONSTRAINT''"
    and "namedConstraint (infosOf l) = Inr c"
  shows "parseLine st l = Inr (storeConstraint st c)"
  using assms
  by (auto simp: parseLine_def isHeader_def andThen_def isKeyword_iff indexDefinition_def
      constraintDefinition_def keyDefinition_def storeConstraint_def Let_def)

lemma parseLine_key_line:
  assumes "analyzingTable st"
    and "\<not> (1 < length (infosOf l) \<and> infosOf l ! 1 = ''ENGINE=InnoDB'')"
    and "infosOf l ! 0 = ''PRIMARY'' \<or> infosOf l ! 0 = ''UNIQUE''"
    and "keyConstraint (infosOf l) = Inr c"
  shows "parseLine st l = Inr (storeConstraint st c)"
  using assms
  by (auto simp: parseLine_def isHeader_def andThen_def isKeyword_iff indexDefinition_def
      constraintDefinition_def keyDefinition_def storeConstraint_def Let_def)

lemma storeConstraint_lookup:
  "lookupConstraint (table (storeConstraint st c)) (Constraint.ColumnName c) (Constraint.Type c)
     = Some c
   \<and> (\<forall>col ty. (col, ty) \<noteq> (Constraint.ColumnName c, Constraint.Type c) \<longrightarrow>
         lookupConstraint (table (storeConstraint st c)) col ty
           = lookupConstraint (table st) col ty)"
  unfolding storeConstraint_def
  using lookupConstraint_put_same [where t = "table st"]
    lookupConstraint_put_other [where t = "table st"]
  by simp

text \<open>
  Claim C8. In every schema that \<open>parseTables\<close> returns, each table's constraint map has
  distinct column keys, and under each column distinct kind keys: at most one constraint
  per column and kind. And a CONSTRAINT, PRIMARY or UNIQUE line read inside a table body
  leaves its own constraint under its column and kind, whatever was stored there before,
  and leaves every other column and kind as it was: a later line overwrites an earlier
  one for the same pair.
\<close>

theorem one_constraint_per_column_and_kind:
  "(parseTables data = Inr schema \<longrightarrow>
      (\<forall>(k, t) \<in> set schema. distinctConstraints (Constraints t)))
   \<and> (analyzingTable st
       \<and> \<not> (1 < length (infosOf l) \<and> infosOf l ! 1 = ''ENGINE=InnoDB'')
       \<and> ((infosOf l ! 0 = ''CONSTRAINT'' \<and> namedConstraint (infosOf l) = Inr c)
            \<or> ((infosOf l ! 0 = ''PRIMARY'' \<or> infosOf l ! 0 = ''UNIQUE'')
                 \<and> keyConstraint (infosOf l) = Inr c))
       \<longrightarrow> (\<exists>st'. parseLine st l = Inr st'
              \<and> lookupConstraint (table st') (Constraint.ColumnName c) (Constraint.Type c)
                  = Some c
              \<and> (\<forall>col ty. (col, ty) \<noteq> (Constraint.ColumnName c, Constraint.Type c) \<longrightarrow>
                    lookupConstraint (table st') col ty = lookupConstraint (table st) col ty)))"
proof (intro conjI impI)
  assume "parseTables data = Inr schema"
  then have "wfSchema schema" by (rule parseTables_wf)
  then show "\<forall>(k, t) \<in> set schema. distinctConstraints (Constraints t)"
    unfolding wfSchema_def wfTable_def by blast
next
  assume h: "analyzingTable st
       \<and> \<not> (1 < length (infosOf l) \<and> infosOf l ! 1 = ''ENGINE=InnoDB'')
       \<and> ((infosOf l ! 0 = ''CONSTRAINT'' \<and> namedConstraint (infosOf l) = Inr c)
            \<or> ((infosOf l ! 0 = ''PRIMARY'' \<or> infosOf l ! 0 = ''UNIQUE'')
                 \<and> keyConstraint (infosOf l) = Inr c))"
  then have "parseLine st l = Inr (storeConstraint st c)"
    using parseLine_constraint_line [of st l c] parseLine_key_line [of st l c] by blast
  with storeConstraint_lookup [of st c]
  show "\<exists>st'. parseLine st l = Inr st'
              \<and> lookupConstraint (table st') (Constraint.ColumnName c) (Constraint.Type c)
                  = Some c
              \<and> (\<forall>col ty. (col, ty) \<noteq> (Constraint.ColumnName c, Constraint.Type c) \<longrightarrow>
                    lookupConstraint (table st') col ty = lookupConstraint (table st) col ty)"
    by blast
qed

lemma parseLine_column_line:
  assumes "analyzingTable st"
    and "\<not> (1 < length (infosOf l) \<and> infosOf l ! 1 = ''ENGINE=InnoDB'')"
    and "\<not> (infosOf l ! 0 = ''CREATE'' \<and> infosOf l ! 1 = ''TABLE'')"
    and "\<not> isKeyword (infosOf l ! 0)"
    and "2 \<le> length (infosOf l)"
  shows "parseLine st l =
     Inr (st\<lparr>table := (table st)\<lparr>Columns :=
            AList.update (Trim (infosOf l ! 0) ''`'')
              \<lparr>Column.Name = Trim (infosOf l ! 0) ''`'', Column.Type = infosOf l ! 1,
                Column.Other = Trim (Join (drop 2 (infosOf l)) '' '') '',''\<rparr>
              (Columns (table st))\<rparr>\<rparr>)"
  using assms
  by (auto simp: parseLine_def isHeader_def andThen_def index_def sliceFrom_def
      columnDefinition_def Let_def)

lemma parse_exampleTextDup: "parseTables exampleTextDup = Inr exampleSchemaDup"
  by code_simp

lemma parse_exampleTextComma: "parseTables exampleTextComma = Inr exampleSchemaComma"
  by code_simp

lemma parse_exampleTextPlain: "parseTables exampleTextPlain = Inr exampleSchemaPlain"
  by code_simp

lemma compare_comma_plain:
  "compareTables exampleSchemaComma exampleSchemaPlain =
     [\<lparr>Diff.Type = WrongColumnType, Target = ''t.id'', A = ''INT,'', B = ''INT''\<rparr>,
      \<lparr>Diff.Type = WrongColumnOther, Target = ''t.id'', A = '''', B = ''NOT NULL''\<rparr>]"
  by (simp add: compareTables_def exampleSchemaComma_def exampleSchemaPlain_def Sprintf2_def)

lemma infosOf_id_INT: "infosOf ''id INT,'' = [''id'', ''INT,'']"
  by (simp add: infosOf_def Trim_def)

lemma infosOf_exampleLine:
  "infosOf exampleLine =
     [''CONSTRAINT'', ''`fk_y`'', ''FOREIGN'', ''KEY'', ''(`org_id`)'', ''REFERENCES'',
      ''other(id)'']"
  by (simp add: infosOf_def exampleLine_def Trim_def)

theorem one_constraint_per_column_and_kind_witness:
  "parseTables exampleTextDup = Inr exampleSchemaDup
   \<and> list_all (\<lambda>(k, t). distinctConstraints (Constraints t)) exampleSchemaDup
   \<and> analyzingTable exampleState
   \<and> \<not> (1 < length (infosOf exampleLine) \<and> infosOf exampleLine ! 1 = ''ENGINE=InnoDB'')
   \<and> infosOf exampleLine ! 0 = ''CONSTRAINT''
   \<and> namedConstraint (infosOf exampleLine) = Inr exampleConstraint
   \<and> lookupConstraint (table exampleState) ''org_id'' ''FOREIGN'' \<noteq> Some exampleConstraint
   \<and> lookupConstraint (table exampleState) ''org_id'' ''FOREIGN'' \<noteq> None
   \<and> (\<exists>st'. parseLine exampleState exampleLine = Inr st'
         \<and> lookupConstraint (table st') ''org_id'' ''FOREIGN'' = Some exampleConstraint)"
proof -
  have p: "parseTables exampleTextDup = Inr exampleSchemaDup"
    by (rule parse_exampleTextDup)
  have h: "analyzingTable exampleState
       \<and> \<not> (1 < length (infosOf exampleLine) \<and> infosOf exampleLine ! 1 = ''ENGINE=InnoDB'')
       \<and> ((infosOf exampleLine ! 0 = ''CONSTRAINT''
             \<and> namedConstraint (infosOf exampleLine) = Inr exampleConstraint)
            \<or> ((infosOf exampleLine ! 0 = ''PRIMARY'' \<or> infosOf exampleLine ! 0 = ''UNIQUE'')
                 \<and> keyConstraint (infosOf exampleLine) = Inr exampleConstraint))"
    by (simp add: infosOf_exampleLine exampleState_def namedConstraint_def andThen_def
        index_def sliceFrom_def Trim_def exampleConstraint_def)
  have old: "lookupConstraint (table exampleState) ''org_id'' ''FOREIGN'' \<noteq> Some exampleConstraint
    \<and> lookupConstraint (table exampleState) ''org_id'' ''FOREIGN'' \<noteq> None"
    by (simp add: exampleState_def lookupConstraint_def exampleConstraint_def)
  have c: "Constraint.ColumnName exampleConstraint = ''org_id''"
    "Constraint.Type exampleConstraint = ''FOREIGN''"
    by (simp_all add: exampleConstraint_def)
  from one_constraint_per_column_and_kind
    [of exampleTextDup exampleSchemaDup exampleState exampleLine exampleConstraint] p h
  have "(\<forall>(k, t) \<in> set exampleSchemaDup. distinctConstraints (Constraints t))
    \<and> (\<exists>st'. parseLine exampleState exampleLine = Inr st'
         \<and> lookupConstraint (table st') ''org_id'' ''FOREIGN'' = Some exampleConstraint)"
    unfolding c by blast
  with p h old show ?thesis
    by (simp add: infosOf_exampleLine list_all_iff)
qed

text \<open>
  Claim C10. A column line read inside a table body stores the second token as the
  column's \<open>Type\<close> exactly as it stands; only the joined remainder is trimmed of commas.
  So the line \<open>id INT,\<close> stores the type \<open>INT,\<close> while \<open>id INT NOT NULL,\<close> stores
  \<open>INT\<close>, and comparing the two schemas reports WRONG_COLUMN_TYPE for \<open>t.id\<close>. Each of
  the two schemas has one table with one column, so the order in which the maps are
  visited plays no part.
\<close>

theorem column_type_keeps_comma:
  "(analyzingTable st
    \<and> \<not> (1 < length (infosOf l) \<and> infosOf l ! 1 = ''ENGINE=InnoDB'')
    \<and> \<not> (infosOf l ! 0 = ''CREATE'' \<and> infosOf l ! 1 = ''TABLE'')
    \<and> \<not> isKeyword (infosOf l ! 0)
    \<and> 2 \<le> length (infosOf l)
    \<longrightarrow> (\<exists>st'. parseLine st l = Inr st'
           \<and> map_of (Columns (table st')) (Trim (infosOf l ! 0) ''`'') =
               Some \<lparr>Column.Name = Trim (infosOf l ! 0) ''`'', Column.Type = infosOf l ! 1,
                     Column.Other = Trim (Join (drop 2 (infosOf l)) '' '') '',''\<rparr>))
   \<and> parseTables exampleTextComma = Inr exampleSchemaComma
   \<and> parseTables exampleTextPlain = Inr exampleSchemaPlain
   \<and> compareTables exampleSchemaComma exampleSchemaPlain =
       [\<lparr>Diff.Type = WrongColumnType, Target = ''t.id'', A = ''INT,'', B = ''INT''\<rparr>,
        \<lparr>Diff.Type = WrongColumnOther, Target = ''t.id'', A = '''', B = ''NOT NULL''\<rparr>]"
proof (intro conjI impI)
  assume h: "analyzingTable st
    \<and> \<not> (1 < length (infosOf l) \<and> infosOf l ! 1 = ''ENGINE=InnoDB'')
    \<and> \<not> (infosOf l ! 0 = ''CREATE'' \<and> infosOf l ! 1 = ''TABLE'')
    \<and> \<not> isKeyword (infosOf l ! 0)
    \<and> 2 \<le> length (infosOf l)"
  then have "parseLine st l =
     Inr (st\<lparr>table := (table st)\<lparr>Columns :=
            AList.update (Trim (infosOf l ! 0) ''`'')
              \<lparr>Column.Name = Trim (infosOf l ! 0) ''`'', Column.Type = infosOf l ! 1,
                Column.Other = Trim (Join (drop 2 (infosOf l)) '' '') '',''\<rparr>
              (Columns (table st))\<rparr>\<rparr>)"
    by (intro parseLine_column_line) simp_all
  then show "\<exists>st'. parseLine st l = Inr st'
           \<and> map_of (Columns (table st')) (Trim (infosOf l ! 0) ''`'') =
               Some \<lparr>Column.Name = Trim (infosOf l ! 0) ''`'', Column.Type = infosOf l ! 1,
                     Column.Other = Trim (Join (drop 2 (infosOf l)) '' '') '',''\<rparr>"
    by (simp add: update_conv')
qed (rule parse_exampleTextComma parse_exampleTextPlain compare_comma_plain)+

theorem column_type_keeps_comma_witness:
  "analyzingTable exampleState
   \<and> \<not> (1 < length (infosOf ''id INT,'') \<and> infosOf ''id INT,'' ! 1 = ''ENGINE=InnoDB'')
   \<and> \<not> (infosOf ''id INT,'' ! 0 = ''CREATE'' \<and> infosOf ''id INT,'' ! 1 = ''TABLE'')
   \<and> \<not> isKeyword (infosOf ''id INT,'' ! 0)
   \<and> 2 \<le> length (infosOf ''id INT,'')
   \<and> (\<exists>st'. parseLine exampleState ''id INT,'' = Inr st'
         \<and> map_of (Columns (table st')) ''id'' =
             Some \<lparr>Column.Name = ''id'', Column.Type = ''INT,'', Column.Other = ''''\<rparr>)"
proof -
  have h: "analyzingTable exampleState
   \<and> \<not> (1 < length (infosOf ''id INT,'') \<and> infosOf ''id INT,'' ! 1 = ''ENGINE=InnoDB'')
   \<and> \<not> (infosOf ''id INT,'' ! 0 = ''CREATE'' \<and> infosOf ''id INT,'' ! 1 = ''TABLE'')
   \<and> \<not> isKeyword (infosOf ''id INT,'' ! 0)
   \<and> 2 \<le> length (infosOf ''id INT,'')"
    by (simp add: infosOf_id_INT exampleState_def isKeyword_iff)
  show ?thesis
    using h column_type_keeps_comma [of exampleState "''id INT,''"]
    by (simp add: infosOf_id_INT Trim_def)
qed

section \<open>Lines that make the parser panic\<close>

text \<open>
  Claim C4. The parser is not total: the header test reads \<open>infos[1]\<close> whenever
  \<open>infos[0]\<close> is CREATE, with no length test (the ENGINE test one statement earlier has
  one), so the text made of the single word CREATE ends in an index-out-of-range panic
  and no schema is returned. The same holds for a header with no table name, and for a
  one-token line such as a closing parenthesis inside a table body, which the column
  branch takes.
\<close>

theorem parseTables_panics:
  "parseTables ''CREATE'' = Inl IndexOutOfRange
   \<and> parseTables ''CREATE TABLE'' = Inl IndexOutOfRange
   \<and> parseTables ''CREATE TABLE t (\<newline>)'' = Inl IndexOutOfRange"
  by code_simp

text \<open>
  Outside a table body a line changes nothing, unless it is a header or the lone word
  CREATE. So a text none of whose lines starts with CREATE TABLE or is the lone word
  CREATE parses to the schema whose only entry is the zero table under the empty name:
  the final store is unconditional.
\<close>

lemma parseLine_outside_table:
  assumes "\<not> analyzingTable st"
    and "infosOf l ! 0 = ''CREATE'' \<longrightarrow> 1 < length (infosOf l) \<and> infosOf l ! 1 \<noteq> ''TABLE''"
  shows "parseLine st l = Inr st"
  using assms
  by (auto simp: parseLine_def isHeader_def andThen_def index_def indexDefinition_def
      constraintDefinition_def keyDefinition_def Let_def)

lemma parseLoop_outside_table:
  assumes "\<not> analyzingTable st"
    and "\<forall>l \<in> set ls.
           infosOf l ! 0 = ''CREATE'' \<longrightarrow> 1 < length (infosOf l) \<and> infosOf l ! 1 \<noteq> ''TABLE''"
  shows "parseLoop st ls = Inr st"
  using assms by (induction ls) (simp_all add: parseLine_outside_table)

lemma parseTables_without_header:
  assumes "\<forall>l \<in> set (Split data CHR ''\<newline>'').
           infosOf l ! 0 = ''CREATE'' \<longrightarrow> 1 < length (infosOf l) \<and> infosOf l ! 1 \<noteq> ''TABLE''"
  shows "parseTables data = Inr [('''', zeroTable)]"
proof -
  have "parseLoop initState (Split data CHR ''\<newline>'') = Inr initState"
    by (rule parseLoop_outside_table [OF _ assms]) (simp add: initState_def)
  then show ?thesis
    by (simp add: parseTables_def initState_def zeroTable_def)
qed

text \<open>
  Claim C9. A text with no CREATE TABLE header whose last line is the single word CREATE
  gets no table under the empty name: the parser panics on that line before it reaches
  the final store.
\<close>

theorem parseTables_no_header_panics:
  "parseTables ''-- empty dump\<newline>CREATE'' = Inl IndexOutOfRange"
  by code_simp

end
